theory Spec2Isabelle
  imports Complex_Main
begin

section \<open>Values exchanged with the collaborators\<close>

text \<open>
  The documents returned by \<^verbatim>\<open>json.loads\<close> and the summaries returned by the evaluation
  library are Python values built from \<^verbatim>\<open>None\<close>, booleans, numbers, \<^verbatim>\<open>str\<close>, lists and
  dictionaries with \<^verbatim>\<open>str\<close> keys. The numbers of these documents (Python \<^verbatim>\<open>int\<close> and
  \<^verbatim>\<open>float\<close>) are read as the real number they denote; the thresholds \<^verbatim>\<open>0.8\<close> and \<^verbatim>\<open>0.5\<close>
  of the source are compared with them as reals. The floats that Vector Retrieval
  computes with are modelled apart, in its section. A dictionary is the list of its items
  (keys distinct).
\<close>

datatype json =
    JNull
  | JBool bool
  | JNum real
  | JStr string
  | JArr "json list"
  | JObj "(string \<times> json) list"

text \<open>
  The key-value store returns \<^verbatim>\<open>bytes\<close> to a client created with
  \<^verbatim>\<open>decode_responses=False\<close> (the client of \<^verbatim>\<open>main.py\<close>) and \<^verbatim>\<open>str\<close> to a client created
  with \<^verbatim>\<open>decode_responses=True\<close> (the client of \<^verbatim>\<open>optimizer.py\<close>). A \<^verbatim>\<open>str\<close> is the
  list of its code points and a \<^verbatim>\<open>bytes\<close> object the list of its bytes; a HOL character
  has 8 bits, so the texts of the model are those whose code points are below 256.
  \<^verbatim>\<open>str.encode()\<close> is UTF-8: one byte for a code point below 128, two bytes otherwise.
\<close>

datatype bytes = Bytes string

definition utf8 :: "char \<Rightarrow> string" where
  "utf8 c =
     (if of_char c < (128::nat) then [c]
      else [char_of (192 + of_char c div (64::nat)), char_of (128 + of_char c mod (64::nat))])"

definition encode :: "string \<Rightarrow> bytes" where
  "encode s = Bytes (concat (map utf8 s))"

datatype error =
    GatewayError
  | JSONDecodeError
  | TypeError
  | KeyError
  | AttributeError
  | ValueError

section \<open>The key-value store\<close>

text \<open>
  Three families of keys are used, with disjoint prefixes: plain values under
  \<^verbatim>\<open>prompt:base\<close> and \<^verbatim>\<open>prompt:segment:...\<close> (GET/SET), one hash per skill under
  \<^verbatim>\<open>skill:<hash>\<close> with the fields \<^verbatim>\<open>trigger\<close>, \<^verbatim>\<open>rebuttal\<close> and \<^verbatim>\<open>vector\<close> (HSET/HGET),
  and the list \<^verbatim>\<open>test_cases:list\<close> (RPUSH/LRANGE/EXISTS). The skill hashes are indexed by
  the integer that follows \<^verbatim>\<open>skill:\<close>; the packed vector is kept as the floats it packs.
  An empty list does not exist as a key. The store is reachable: main.py and optimizer.py
  catch none of the client's exceptions, and no property below is about them.
\<close>

record skill =
  sk_trigger :: bytes
  sk_rebuttal :: bytes
  sk_vector :: "real list"

text \<open>
  An element of \<^verbatim>\<open>test_cases:list\<close> is the \<^verbatim>\<open>json.dumps\<close> of a dictionary with the two keys
  \<^verbatim>\<open>input\<close> and \<^verbatim>\<open>target\<close>, and \<^verbatim>\<open>json.loads\<close> gives the dictionary back.
\<close>

record test_case =
  tc_input :: json
  tc_target :: json

record store =
  strings :: "string \<rightharpoonup> string"
  skills :: "int \<rightharpoonup> skill"
  test_cases :: "test_case list"

definition r_get :: "store \<Rightarrow> string \<Rightarrow> string option" where
  "r_get s key = strings s key"

definition r_set :: "store \<Rightarrow> string \<Rightarrow> string \<Rightarrow> store" where
  "r_set s key v = s\<lparr>strings := (strings s)(key \<mapsto> v)\<rparr>"

definition r_hget_rebuttal :: "store \<Rightarrow> int \<Rightarrow> bytes option" where
  "r_hget_rebuttal s h = map_option sk_rebuttal (skills s h)"

definition r_hset :: "store \<Rightarrow> int \<Rightarrow> skill \<Rightarrow> store" where
  "r_hset s h sk = s\<lparr>skills := (skills s)(h \<mapsto> sk)\<rparr>"

definition r_rpush :: "store \<Rightarrow> test_case \<Rightarrow> store" where
  "r_rpush s c = s\<lparr>test_cases := test_cases s @ [c]\<rparr>"

definition r_exists_test_cases :: "store \<Rightarrow> bool" where
  "r_exists_test_cases s = (test_cases s \<noteq> [])"

text \<open>Python's \<^verbatim>\<open>x or y\<close> and \<^verbatim>\<open>if x:\<close> on a value that is \<^verbatim>\<open>None\<close> or a string.\<close>

definition truthy :: "string option \<Rightarrow> bool" where
  "truthy v = (case v of None \<Rightarrow> False | Some p \<Rightarrow> p \<noteq> [])"

definition py_or :: "string option \<Rightarrow> string \<Rightarrow> string" where
  "py_or v d = (case v of None \<Rightarrow> d | Some p \<Rightarrow> if p \<noteq> [] then p else d)"

section \<open>Segment resolution (optimizer.py)\<close>

definition default_prompt :: string where
  "default_prompt = ''You are a helpful sales agent.''"

definition segment_key_of :: "string \<Rightarrow> string \<Rightarrow> string" where
  "segment_key_of country industry = country @ '':'' @ industry"

text \<open>
  Each step \<^verbatim>\<open>prompt = r.get(key); if prompt: return prompt\<close> returns the stored text when
  it is there and not empty and goes on to the next step otherwise.
\<close>

definition get_prompt_for_segment :: "store \<Rightarrow> string \<Rightarrow> string \<Rightarrow> string" where
  "get_prompt_for_segment s country industry =
     (let segment_key = segment_key_of country industry in
      py_or (r_get s (''prompt:segment:'' @ segment_key))
        (py_or (r_get s (''prompt:segment:*:'' @ industry))
          (py_or (r_get s ''prompt:base'')
            default_prompt)))"

section \<open>The collaborators and the observable state\<close>

text \<open>
  The Language-Model Gateway, the Embedding Gateway and the evaluation library are outside
  the repository. Their answers are inputs of the model: one field per call site, each a
  function of the values the call site sends, returning an exception or a value. A
  JSON-mode answer is given by what \<^verbatim>\<open>json.loads(response.text)\<close> makes of it.
  The gateway is called by the classifier (\<open>classification\<close>), the extractor
  (\<open>extraction\<close>), the mutation step of the optimizer (\<open>mutation\<close>), and, inside the
  evaluation, by \<^verbatim>\<open>PromptSimulator.predict\<close> (\<open>simulation\<close>) and by
  \<^verbatim>\<open>LLMPromptQualityScorer.score\<close> (\<open>judgement\<close>). The evaluation library runs
  \<^verbatim>\<open>predict\<close> and \<^verbatim>\<open>score\<close> on every row of the dataset; \<open>summarize\<close> is what its
  \<^verbatim>\<open>evaluate\<close> makes of the outcomes of the rows, a summary or an exception.
\<close>

datatype json_response =
    NoText
  | Malformed
  | Document json

definition json_loads :: "json_response \<Rightarrow> error + json" where
  "json_loads r =
     (case r of
        NoText \<Rightarrow> Inl TypeError
      | Malformed \<Rightarrow> Inl JSONDecodeError
      | Document j \<Rightarrow> Inr j)"

record world =
  classification :: "string \<Rightarrow> error + json_response"
  extraction :: "string \<Rightarrow> error + json_response"
  mutation :: "string \<Rightarrow> string \<Rightarrow> string \<Rightarrow> string \<Rightarrow> json \<Rightarrow> error + string option"
  simulation :: "string \<Rightarrow> json \<Rightarrow> error + string option"
  judgement :: "string \<Rightarrow> json \<Rightarrow> json \<Rightarrow> error + json_response"
  summarize :: "(error + json) list \<Rightarrow> error + json"
  embedding :: "string \<Rightarrow> error + real list"
  py_hash :: "json \<Rightarrow> int"

text \<open>Every \<^verbatim>\<open>print\<close> of main.py and optimizer.py is an event of the output.\<close>

datatype event =
    OutcomeAnalysis json
  | CouldNotParseOutcome
  | AutoDetermined json
  | GoldFound json
  | GradingAI real
  | TriggeringOptimization string
  | LostDealOptimizing string
  | InitializedDefaults nat
  | AddedTestCase
  | RunningEvaluation nat
  | EvaluationResults json
  | ImprovementVerified string
  | Discarding

record state =
  db :: store
  out :: "event list"

definition print :: "event \<Rightarrow> state \<Rightarrow> state" where
  "print e st = st\<lparr>out := out st @ [e]\<rparr>"

definition on_db :: "(store \<Rightarrow> store) \<Rightarrow> state \<Rightarrow> state" where
  "on_db f st = st\<lparr>db := f (db st)\<rparr>"

section \<open>Operations on Python values\<close>

definition dict_get :: "(string \<times> json) list \<Rightarrow> string \<Rightarrow> json \<Rightarrow> json" where
  "dict_get d k dflt = (case map_of d k of None \<Rightarrow> dflt | Some v \<Rightarrow> v)"

text \<open>\<^verbatim>\<open>v.get(k, dflt)\<close>: only a dictionary has the method.\<close>

definition method_get :: "json \<Rightarrow> string \<Rightarrow> json \<Rightarrow> error + json" where
  "method_get v k dflt =
     (case v of JObj d \<Rightarrow> Inr (dict_get d k dflt) | _ \<Rightarrow> Inl AttributeError)"

text \<open>\<^verbatim>\<open>v[k]\<close> with a string \<open>k\<close>.\<close>

definition subscript :: "json \<Rightarrow> string \<Rightarrow> error + json" where
  "subscript v k =
     (case v of
        JObj d \<Rightarrow> (case map_of d k of None \<Rightarrow> Inl KeyError | Some x \<Rightarrow> Inr x)
      | _ \<Rightarrow> Inl TypeError)"

text \<open>The number a value denotes in a comparison with a float; \<^verbatim>\<open>bool\<close> is an \<^verbatim>\<open>int\<close>.\<close>

definition as_number :: "json \<Rightarrow> real option" where
  "as_number v =
     (case v of
        JNum x \<Rightarrow> Some x
      | JBool b \<Rightarrow> Some (if b then 1 else 0)
      | _ \<Rightarrow> None)"

definition py_gt :: "json \<Rightarrow> real \<Rightarrow> error + bool" where
  "py_gt v c = (case as_number v of None \<Rightarrow> Inl TypeError | Some x \<Rightarrow> Inr (x > c))"

definition py_ge :: "json \<Rightarrow> real \<Rightarrow> error + bool" where
  "py_ge v c = (case as_number v of None \<Rightarrow> Inl TypeError | Some x \<Rightarrow> Inr (x \<ge> c))"

text \<open>The format specification \<^verbatim>\<open>:.2f\<close> in an f-string: accepted by numbers only.\<close>

definition format_2f :: "json \<Rightarrow> error + unit" where
  "format_2f v =
     (case v of
        JNum _ \<Rightarrow> Inr ()
      | JBool _ \<Rightarrow> Inr ()
      | JStr _ \<Rightarrow> Inl ValueError
      | _ \<Rightarrow> Inl TypeError)"

text \<open>
  \<^verbatim>\<open>analysis['rebuttal'] == known_best\<close>, where \<open>known_best\<close> comes from \<^verbatim>\<open>r.hget\<close> of the
  client of main.py (\<^verbatim>\<open>decode_responses=False\<close>): \<^verbatim>\<open>bytes\<close>, or \<^verbatim>\<open>None\<close> when the hash or
  the field is absent. In Python 3 no \<^verbatim>\<open>str\<close>, number, list or dictionary equals a
  \<^verbatim>\<open>bytes\<close> object or \<^verbatim>\<open>None\<close>, and \<^verbatim>\<open>None\<close> equals \<^verbatim>\<open>None\<close> only.
\<close>

fun py_eq_hget :: "json \<Rightarrow> bytes option \<Rightarrow> bool" where
  "py_eq_hget JNull None = True"
| "py_eq_hget _ _ = False"

text \<open>\<^verbatim>\<open>hash(v)\<close>: lists and dictionaries are unhashable.\<close>

definition hash_of :: "world \<Rightarrow> json \<Rightarrow> error + int" where
  "hash_of w v =
     (case v of
        JArr _ \<Rightarrow> Inl TypeError
      | JObj _ \<Rightarrow> Inl TypeError
      | _ \<Rightarrow> Inr (py_hash w v))"

text \<open>
  \<^verbatim>\<open>str.strip()\<close> removes the leading and trailing characters for which \<^verbatim>\<open>str.isspace\<close>
  holds; below 256 these are the code points 9 to 13, 28 to 32, 0x85 and 0xA0.
\<close>

definition is_space :: "char \<Rightarrow> bool" where
  "is_space c = (c \<in> set [CHR 0x09, CHR 0x0A, CHR 0x0B, CHR 0x0C, CHR 0x0D,
                            CHR 0x1C, CHR 0x1D, CHR 0x1E, CHR 0x1F, CHR 0x20,
                            CHR 0x85, CHR 0xA0])"

definition strip :: "string \<Rightarrow> string" where
  "strip s = rev (dropWhile is_space (rev (dropWhile is_space s)))"

definition replace_newlines :: "string \<Rightarrow> string" where
  "replace_newlines s = map (\<lambda>c. if c = CHR 0x0A then CHR '' '' else c) s"

fun split_colon :: "string \<Rightarrow> string list" where
  "split_colon [] = [[]]"
| "split_colon (c # cs) =
     (if c = CHR '':'' then [] # split_colon cs
      else (case split_colon cs of
              [] \<Rightarrow> [[c]]
            | p # ps \<Rightarrow> (c # p) # ps))"

section \<open>The Outcome Classifier (main.py)\<close>

text \<open>
  The gateway call is outside the \<^verbatim>\<open>try\<close>; everything from \<^verbatim>\<open>json.loads\<close> to the
  \<^verbatim>\<open>return outcome\<close> is inside it, and the bare \<^verbatim>\<open>except\<close> answers \<^verbatim>\<open>"LOST_DEAL"\<close>.
\<close>

definition determine_call_outcome :: "world \<Rightarrow> string \<Rightarrow> state \<Rightarrow> (error + json) \<times> state" where
  "determine_call_outcome w transcript st =
     (case classification w transcript of
        Inl e \<Rightarrow> (Inl e, st)
      | Inr response \<Rightarrow>
          (let except = (Inr (JStr ''LOST_DEAL''), print CouldNotParseOutcome st) in
           case json_loads response of
             Inl _ \<Rightarrow> except
           | Inr result \<Rightarrow>
               (case method_get result ''outcome'' (JStr ''LOST_DEAL'') of
                  Inl _ \<Rightarrow> except
                | Inr outcome \<Rightarrow>
                    (case method_get result ''confidence'' (JNum 0) of
                       Inl _ \<Rightarrow> except
                     | Inr confidence \<Rightarrow>
                         (case method_get result ''reason'' (JStr []) of
                            Inl _ \<Rightarrow> except
                          | Inr reason \<Rightarrow>
                              (case format_2f confidence of
                                 Inl _ \<Rightarrow> except
                               | Inr _ \<Rightarrow> (Inr outcome, print (OutcomeAnalysis outcome) st)))))))"

section \<open>The test-case corpus and the Prompt Optimizer (optimizer.py)\<close>

definition default_cases :: "test_case list" where
  "default_cases =
     [\<lparr>tc_input = JStr ''Hello, who are you?'', tc_target = JStr ''I am a sales representative''\<rparr>,
      \<lparr>tc_input = JStr ''It is too expensive.'', tc_target = JStr ''Value proposition and ROI''\<rparr>,
      \<lparr>tc_input = JStr ''I need to think about it.'',
       tc_target = JStr ''Address hesitation with urgency''\<rparr>]"

definition initialize_default_test_cases :: "state \<Rightarrow> state" where
  "initialize_default_test_cases st =
     (if \<not> r_exists_test_cases (db st)
      then print (InitializedDefaults (length default_cases))
             (on_db (\<lambda>s. foldl r_rpush s default_cases) st)
      else st)"

text \<open>\<^verbatim>\<open>objection[:50]\<close> in the message printed after the append.\<close>

definition slice_50 :: "json \<Rightarrow> error + unit" where
  "slice_50 v = (case v of JStr _ \<Rightarrow> Inr () | JArr _ \<Rightarrow> Inr () | _ \<Rightarrow> Inl TypeError)"

definition add_test_case_from_lesson ::
  "json \<Rightarrow> json \<Rightarrow> state \<Rightarrow> (error + test_case) \<times> state" where
  "add_test_case_from_lesson objection rebuttal st =
     (let tc = \<lparr>tc_input = objection, tc_target = rebuttal\<rparr>;
          st1 = on_db (\<lambda>s. r_rpush s tc) st
      in case slice_50 objection of
           Inl e \<Rightarrow> (Inl e, st1)
         | Inr _ \<Rightarrow> (Inr tc, print AddedTestCase st1))"

definition get_test_cases_from_redis :: "state \<Rightarrow> test_case list" where
  "get_test_cases_from_redis st = test_cases (db st)"

text \<open>
  \<^verbatim>\<open>PromptSimulator.predict\<close>: the gateway call is not guarded, and \<^verbatim>\<open>response.text.strip()\<close>
  needs a text.
\<close>

definition predict :: "world \<Rightarrow> string \<Rightarrow> json \<Rightarrow> error + string" where
  "predict w prompt inp =
     (case simulation w prompt inp of
        Inl e \<Rightarrow> Inl e
      | Inr None \<Rightarrow> Inl AttributeError
      | Inr (Some text) \<Rightarrow> Inr (strip text))"

text \<open>
  \<^verbatim>\<open>LLMPromptQualityScorer.score\<close>: the gateway call is outside the \<^verbatim>\<open>try\<close>; a text that
  does not parse, or that parses to something without \<^verbatim>\<open>get\<close>, is answered by the bare
  \<^verbatim>\<open>except\<close> with the all-negative scores.
\<close>

definition failed_scores :: json where
  "failed_scores =
     JObj [(''addresses_objection'', JBool False),
           (''professional_tone'', JBool False),
           (''aligns_with_target'', JBool False),
           (''overall_score'', JNum 0)]"

definition score :: "world \<Rightarrow> string \<Rightarrow> json \<Rightarrow> json \<Rightarrow> error + json" where
  "score w output inp target =
     (case judgement w output inp target of
        Inl e \<Rightarrow> Inl e
      | Inr response \<Rightarrow>
          (case json_loads response of
             Inl _ \<Rightarrow> Inr failed_scores
           | Inr result \<Rightarrow>
               (case result of
                  JObj d \<Rightarrow>
                    Inr (JObj [(''addresses_objection'', dict_get d ''addresses_objection'' (JBool False)),
                               (''professional_tone'', dict_get d ''professional_tone'' (JBool False)),
                               (''aligns_with_target'', dict_get d ''aligns_with_target'' (JBool False)),
                               (''overall_score'', dict_get d ''overall_score'' (JNum 0))])
                | _ \<Rightarrow> Inr failed_scores)))"

text \<open>
  \<^verbatim>\<open>asyncio.run(evaluation.evaluate(model))\<close> with the dataset \<open>dataset\<close>, the model
  \<^verbatim>\<open>PromptSimulator(prompt=candidate)\<close> and the one scorer: every row is predicted from its
  \<^verbatim>\<open>input\<close> and the output scored against its \<^verbatim>\<open>input\<close> and \<^verbatim>\<open>target\<close>; the library turns
  the outcomes of the rows into its result.
\<close>

definition predict_and_score :: "world \<Rightarrow> string \<Rightarrow> test_case \<Rightarrow> error + json" where
  "predict_and_score w candidate tc =
     (case predict w candidate (tc_input tc) of
        Inl e \<Rightarrow> Inl e
      | Inr output \<Rightarrow> score w output (tc_input tc) (tc_target tc))"

definition evaluate :: "world \<Rightarrow> string \<Rightarrow> test_case list \<Rightarrow> error + json" where
  "evaluate w candidate dataset = summarize w (map (predict_and_score w candidate) dataset)"

text \<open>
  \<^verbatim>\<open>results.get("LLMPromptQualityScorer", {}).get("overall_score", {}).get("mean", 0.0)\<close>
\<close>

definition avg_score_of :: "json \<Rightarrow> error + json" where
  "avg_score_of results =
     (case method_get results ''LLMPromptQualityScorer'' (JObj []) of
        Inl e \<Rightarrow> Inl e
      | Inr scorer_results \<Rightarrow>
          (case method_get scorer_results ''overall_score'' (JObj []) of
             Inl e \<Rightarrow> Inl e
           | Inr overall \<Rightarrow> method_get overall ''mean'' (JNum 0)))"

definition optimize_and_verify ::
  "world \<Rightarrow> string \<Rightarrow> string \<Rightarrow> json \<Rightarrow> state \<Rightarrow> (error + string) \<times> state" where
  "optimize_and_verify w segment_key transcript outcome st0 =
     (let current_prompt =
            py_or (r_get (db st0) (''prompt:segment:'' @ segment_key))
              (py_or (r_get (db st0) ''prompt:base'') ''You are a helpful sales agent.'');
          parts = split_colon segment_key;
          country = (if length parts > 0 then parts ! 0 else ''US'');
          industry = (if length parts > 1 then parts ! 1 else ''general'')
      in
      case mutation w industry country current_prompt transcript outcome of
        Inl e \<Rightarrow> (Inl e, st0)
      | Inr None \<Rightarrow> (Inl AttributeError, st0)
      | Inr (Some text) \<Rightarrow>
          (let candidate_prompt = strip text;
               st1 = (if get_test_cases_from_redis st0 = []
                      then initialize_default_test_cases st0 else st0);
               dataset = get_test_cases_from_redis st1;
               st2 = print (RunningEvaluation (length dataset)) st1
           in
           case evaluate w candidate_prompt dataset of
             Inl e \<Rightarrow> (Inl e, st2)
           | Inr results \<Rightarrow>
               (case avg_score_of results of
                  Inl e \<Rightarrow> (Inl e, st2)
                | Inr avg_score \<Rightarrow>
                    (case format_2f avg_score of
                       Inl e \<Rightarrow> (Inl e, st2)
                     | Inr _ \<Rightarrow>
                         (let st3 = print (EvaluationResults avg_score) st2 in
                          case py_ge avg_score 0.5 of
                            Inl e \<Rightarrow> (Inl e, st3)
                          | Inr passed \<Rightarrow>
                              if passed
                              then (Inr candidate_prompt,
                                    on_db (\<lambda>s. r_set s (''prompt:segment:'' @ segment_key)
                                                 candidate_prompt)
                                      (print (ImprovementVerified segment_key) st3))
                              else (Inr candidate_prompt, print Discarding st3))))))"

section \<open>The Skill Store writer and the Routing Policy (main.py)\<close>

text \<open>\<^verbatim>\<open>text.replace("\n", " ")\<close> needs a \<^verbatim>\<open>str\<close>; the cleaned text goes to the gateway.\<close>

definition get_embedding :: "world \<Rightarrow> json \<Rightarrow> error + real list" where
  "get_embedding w text =
     (case text of
        JStr t \<Rightarrow> embedding w (replace_newlines t)
      | _ \<Rightarrow> Inl AttributeError)"

definition encode_method :: "json \<Rightarrow> error + bytes" where
  "encode_method v = (case v of JStr t \<Rightarrow> Inr (encode t) | _ \<Rightarrow> Inl AttributeError)"

definition store_lesson_in_redis :: "world \<Rightarrow> json \<Rightarrow> state \<Rightarrow> (error + unit) \<times> state" where
  "store_lesson_in_redis w analysis st =
     (case subscript analysis ''objection'' of
        Inl e \<Rightarrow> (Inl e, st)
      | Inr objection \<Rightarrow>
          (case get_embedding w objection of
             Inl e \<Rightarrow> (Inl e, st)
           | Inr vec \<Rightarrow>
               (case hash_of w objection of
                  Inl e \<Rightarrow> (Inl e, st)
                | Inr h \<Rightarrow>
                    (case encode_method objection of
                       Inl e \<Rightarrow> (Inl e, st)
                     | Inr trig \<Rightarrow>
                         (case subscript analysis ''rebuttal'' of
                            Inl e \<Rightarrow> (Inl e, st)
                          | Inr reb \<Rightarrow>
                              (case encode_method reb of
                                 Inl e \<Rightarrow> (Inl e, st)
                               | Inr reb_bytes \<Rightarrow>
                                   (Inr (),
                                    on_db (\<lambda>s. r_hset s h
                                             \<lparr>sk_trigger = trig, sk_rebuttal = reb_bytes,
                                              sk_vector = vec\<rparr>) st)))))))"

text \<open>SCENARIO A, the body of \<^verbatim>\<open>if analysis['quality_score'] > 0.8\<close>.\<close>

definition scenario_a :: "world \<Rightarrow> string \<Rightarrow> json \<Rightarrow> state \<Rightarrow> (error + json) \<times> state" where
  "scenario_a w segment_key analysis st =
     (case subscript analysis ''objection'' of
        Inl e \<Rightarrow> (Inl e, st)
      | Inr objection \<Rightarrow>
          (let st1 = print (GoldFound objection) st in
           case store_lesson_in_redis w analysis st1 of
             (Inl e, st2) \<Rightarrow> (Inl e, st2)
           | (Inr _, st2) \<Rightarrow>
               (case subscript analysis ''rebuttal'' of
                  Inl e \<Rightarrow> (Inl e, st2)
                | Inr reb \<Rightarrow>
                    (case add_test_case_from_lesson objection reb st2 of
                       (Inl e, st3) \<Rightarrow> (Inl e, st3)
                     | (Inr _, st3) \<Rightarrow>
                         (Inr (JObj [(''status'', JStr ''learned_new_skill''),
                                     (''data'', analysis),
                                     (''segment'', JStr segment_key)]), st3)))))"

text \<open>
  The grading of SCENARIO B:
  \<^verbatim>\<open>grading_score = 1.0 if analysis['rebuttal'] == known_best else 0.5\<close>.
\<close>

definition grading_score_of :: "json \<Rightarrow> bytes option \<Rightarrow> real" where
  "grading_score_of reb known_best = (if py_eq_hget reb known_best then 1.0 else 0.5)"

definition scenario_b ::
  "world \<Rightarrow> string \<Rightarrow> json \<Rightarrow> string \<Rightarrow> json \<Rightarrow> state \<Rightarrow> (error + json) \<times> state" where
  "scenario_b w transcript outcome segment_key analysis st =
     (case subscript analysis ''objection'' of
        Inl e \<Rightarrow> (Inl e, st)
      | Inr objection \<Rightarrow>
          (case hash_of w objection of
             Inl e \<Rightarrow> (Inl e, st)
           | Inr h \<Rightarrow>
               (let known_best = r_hget_rebuttal (db st) h in
                case subscript analysis ''rebuttal'' of
                  Inl e \<Rightarrow> (Inl e, st)
                | Inr reb \<Rightarrow>
                    (let grading_score = grading_score_of reb known_best;
                         st1 = print (GradingAI grading_score) st
                     in
                     if outcome = JStr ''LOST_DEAL''
                     then
                       (let st2 = print (TriggeringOptimization segment_key) st1 in
                        case optimize_and_verify w segment_key transcript outcome st2 of
                          (Inl e, st3) \<Rightarrow> (Inl e, st3)
                        | (Inr _, st3) \<Rightarrow>
                            (Inr (JObj [(''status'', JStr ''graded_agent''),
                                        (''score'', JNum grading_score),
                                        (''optimized'', JBool True),
                                        (''segment'', JStr segment_key)]), st3))
                     else (Inr (JObj [(''status'', JStr ''graded_agent''),
                                      (''score'', JNum grading_score)]), st1)))))"

text \<open>SCENARIO C and the final \<^verbatim>\<open>return\<close>.\<close>

definition scenario_c ::
  "world \<Rightarrow> string \<Rightarrow> json \<Rightarrow> string \<Rightarrow> state \<Rightarrow> (error + json) \<times> state" where
  "scenario_c w transcript outcome segment_key st =
     (if outcome = JStr ''LOST_DEAL''
      then
        (let st1 = print (LostDealOptimizing segment_key) st in
         case optimize_and_verify w segment_key transcript outcome st1 of
           (Inl e, st2) \<Rightarrow> (Inl e, st2)
         | (Inr _, st2) \<Rightarrow>
             (Inr (JObj [(''status'', JStr ''prompt_optimized''),
                         (''segment'', JStr segment_key)]), st2))
      else (Inr (JObj [(''status'', JStr ''no_action_needed'')]), st))"

text \<open>Step 2 of \<^verbatim>\<open>process_call_outcome\<close>, THE ROUTER.\<close>

definition router ::
  "world \<Rightarrow> string \<Rightarrow> string \<Rightarrow> json \<Rightarrow> string \<Rightarrow> json \<Rightarrow> state \<Rightarrow> (error + json) \<times> state" where
  "router w transcript speaker_role outcome segment_key analysis st =
     (if speaker_role = ''HUMAN_MANAGER'' \<and> outcome = JStr ''CLOSED_DEAL''
      then
        (case subscript analysis ''quality_score'' of
           Inl e \<Rightarrow> (Inl e, st)
         | Inr quality_score \<Rightarrow>
             (case py_gt quality_score 0.8 of
                Inl e \<Rightarrow> (Inl e, st)
              | Inr high \<Rightarrow>
                  if high then scenario_a w segment_key analysis st
                  else scenario_c w transcript outcome segment_key st))
      else if speaker_role = ''AI_AGENT''
      then scenario_b w transcript outcome segment_key analysis st
      else scenario_c w transcript outcome segment_key st)"

text \<open>
  The \<open>outcome\<close> argument is \<^verbatim>\<open>None\<close> or a string; an outcome that was determined
  automatically is whatever the classifier returned.
\<close>

definition process_call_outcome ::
  "world \<Rightarrow> string \<Rightarrow> string \<Rightarrow> string option \<Rightarrow> string \<Rightarrow> string \<Rightarrow> state
     \<Rightarrow> (error + json) \<times> state" where
  "process_call_outcome w transcript speaker_role outcome_arg country industry st0 =
     (case (case outcome_arg of
              None \<Rightarrow>
                (case determine_call_outcome w transcript st0 of
                   (Inl e, st) \<Rightarrow> (Inl e, st)
                 | (Inr oc, st) \<Rightarrow> (Inr oc, print (AutoDetermined oc) st))
            | Some oc \<Rightarrow> (Inr (JStr oc), st0)) of
        (Inl e, st) \<Rightarrow> (Inl e, st)
      | (Inr outcome, st) \<Rightarrow>
          (let segment_key = segment_key_of country industry in
           case extraction w transcript of
             Inl e \<Rightarrow> (Inl e, st)
           | Inr response \<Rightarrow>
               (case json_loads response of
                  Inl e \<Rightarrow> (Inl e, st)
                | Inr analysis \<Rightarrow>
                    router w transcript speaker_role outcome segment_key analysis st)))"

section \<open>Vector Retrieval (redis_service.py)\<close>

text \<open>
  The scores are floats. A float is a finite number, an infinity or NaN; \<^verbatim>\<open>==\<close> and \<^verbatim>\<open><\<close>
  are the comparisons of IEEE 754, false whenever an operand is NaN.
\<close>

datatype fl = Finite real | PosInf | NegInf | NaN

definition fl_is_zero :: "fl \<Rightarrow> bool" where
  "fl_is_zero x = (x = Finite 0)"

fun fl_lt :: "fl \<Rightarrow> fl \<Rightarrow> bool" where
  "fl_lt (Finite a) (Finite b) = (a < b)"
| "fl_lt NaN _ = False"
| "fl_lt _ NaN = False"
| "fl_lt _ NegInf = False"
| "fl_lt NegInf _ = True"
| "fl_lt PosInf _ = False"
| "fl_lt _ PosInf = True"

text \<open>
  What the service sees of its client: whether a client exists, what the SCAN loop over
  \<^verbatim>\<open>skill:*\<close> collects (or the exception it raises), the dictionary \<^verbatim>\<open>hgetall\<close> returns
  for a key (or the exception), and what \<^verbatim>\<open>struct.unpack\<close> makes of the bytes of a
  \<^verbatim>\<open>vector\<close> field with the format \<^verbatim>\<open>f'{len(vector_bytes) // 4}f'\<close> (the floats, or the
  exception raised when the length is not a multiple of 4).
  The parameter \<^verbatim>\<open>index_name\<close> is not used by the source.
\<close>

record service =
  connected :: bool
  scan_keys :: "error + string list"
  hgetall :: "string \<Rightarrow> error + (string \<times> string) list"
  unpack :: "string \<Rightarrow> error + fl list"

record search_result =
  res_content :: string
  res_source :: string
  res_key :: string
  res_score :: fl

text \<open>
  The arithmetic is done by numpy and the ordering by \<^verbatim>\<open>list.sort\<close>, with the rounding,
  overflow and underflow of floats; their results are inputs of the model:
  \<^verbatim>\<open>np.linalg.norm(v)\<close>, the value of \<^verbatim>\<open>np.dot(a, b)\<close> for arrays of equal length, the
  product and the quotient of two floats, and the order in which \<^verbatim>\<open>list.sort\<close> leaves a
  list that has a NaN among its keys, where its comparisons are inconsistent
  (\<open>sort_with_nan\<close>).
\<close>

record runtime =
  np_norm :: "fl list \<Rightarrow> fl"
  np_dot_value :: "fl list \<Rightarrow> fl list \<Rightarrow> fl"
  np_multiply :: "fl \<Rightarrow> fl \<Rightarrow> fl"
  np_divide :: "fl \<Rightarrow> fl \<Rightarrow> fl"
  sort_with_nan :: "search_result list \<Rightarrow> search_result list"

text \<open>\<^verbatim>\<open>np.dot\<close> of two one-dimensional arrays raises when their lengths differ.\<close>

definition np_dot :: "runtime \<Rightarrow> fl list \<Rightarrow> fl list \<Rightarrow> error + fl" where
  "np_dot rt a b =
     (if length a \<noteq> length b then Inl ValueError else Inr (np_dot_value rt a b))"

text \<open>
  The body of the loop over \<open>all_keys\<close>: \<open>None\<close> is a \<^verbatim>\<open>continue\<close>, also the one of the
  inner \<^verbatim>\<open>except\<close>.
\<close>

definition process_key ::
  "service \<Rightarrow> runtime \<Rightarrow> fl list \<Rightarrow> fl \<Rightarrow> string \<Rightarrow> search_result option" where
  "process_key svc rt query_vec query_norm key =
     (case hgetall svc key of
        Inl _ \<Rightarrow> None
      | Inr data \<Rightarrow>
          if data = [] then None
          else
            (case map_of data ''vector'' of
               None \<Rightarrow> None
             | Some vector_bytes \<Rightarrow>
                 if vector_bytes = [] then None
                 else
                   (case unpack svc vector_bytes of
                      Inl _ \<Rightarrow> None
                    | Inr stored_vec \<Rightarrow>
                        (let stored_norm = np_norm rt stored_vec in
                         if fl_is_zero stored_norm then None
                         else
                           (case np_dot rt query_vec stored_vec of
                              Inl _ \<Rightarrow> None
                            | Inr d \<Rightarrow>
                                (let similarity =
                                       np_divide rt d (np_multiply rt query_norm stored_norm);
                                     trig = py_or (map_of data ''trigger'') [];
                                     reb = py_or (map_of data ''rebuttal'') []
                                 in Some \<lparr>res_content =
                                            ''Objection: '' @ trig @ [CHR 0x0A]
                                              @ ''Rebuttal: '' @ reb,
                                          res_source = ''learned_skill'',
                                          res_key = key,
                                          res_score = similarity\<rparr>))))))"

fun collect ::
  "service \<Rightarrow> runtime \<Rightarrow> fl list \<Rightarrow> fl \<Rightarrow> string list \<Rightarrow> search_result list
     \<Rightarrow> search_result list" where
  "collect svc rt query_vec query_norm [] results = results"
| "collect svc rt query_vec query_norm (key # keys) results =
     (case process_key svc rt query_vec query_norm key of
        None \<Rightarrow> collect svc rt query_vec query_norm keys results
      | Some r \<Rightarrow> collect svc rt query_vec query_norm keys (results @ [r]))"

text \<open>
  \<^verbatim>\<open>results.sort(key=lambda x: x["score"], reverse=True)\<close>. When no score is NaN the
  comparisons are consistent and the sort, which is stable, leaves the entries in
  descending order of score, entries of equal score in the order they had. With a NaN
  among the scores the order is the input \<open>sort_with_nan\<close>.
\<close>

fun insert_desc :: "search_result \<Rightarrow> search_result list \<Rightarrow> search_result list" where
  "insert_desc x [] = [x]"
| "insert_desc x (y # ys) =
     (if fl_lt (res_score x) (res_score y) then y # insert_desc x ys else x # y # ys)"

definition stable_desc :: "search_result list \<Rightarrow> search_result list" where
  "stable_desc results = foldr insert_desc results []"

definition sort_by_score_desc :: "runtime \<Rightarrow> search_result list \<Rightarrow> search_result list" where
  "sort_by_score_desc rt results =
     (if list_ex (\<lambda>r. res_score r = NaN) results
      then sort_with_nan rt results
      else stable_desc results)"

text \<open>\<^verbatim>\<open>xs[:k]\<close>: a negative \<open>k\<close> counts from the end.\<close>

definition slice_to :: "'a list \<Rightarrow> int \<Rightarrow> 'a list" where
  "slice_to xs k =
     (if 0 \<le> k then take (nat k) xs else take (nat (int (length xs) + k)) xs)"

definition vector_search :: "service \<Rightarrow> runtime \<Rightarrow> fl list \<Rightarrow> int \<Rightarrow> search_result list" where
  "vector_search svc rt query_embedding k =
     (if \<not> connected svc then []
      else
        (case scan_keys svc of
           Inl _ \<Rightarrow> []
         | Inr all_keys \<Rightarrow>
             if all_keys = [] then []
             else
               (let query_vec = query_embedding;
                    query_norm = np_norm rt query_vec
                in
                if fl_is_zero query_norm then []
                else
                  (let results = collect svc rt query_vec query_norm all_keys [] in
                   slice_to (sort_by_score_desc rt results) k))))"

section \<open>Observations and sample inputs\<close>

text \<open>The \<^verbatim>\<open>"status"\<close> entry of a returned dictionary.\<close>

definition status_of :: "error + json \<Rightarrow> json option" where
  "status_of res =
     (case res of
        Inr (JObj d) \<Rightarrow> map_of d ''status''
      | _ \<Rightarrow> None)"

text \<open>The messages printed by the optimization path and by nothing else.\<close>

fun optimizer_event :: "event \<Rightarrow> bool" where
  "optimizer_event (TriggeringOptimization _) = True"
| "optimizer_event (LostDealOptimizing _) = True"
| "optimizer_event (InitializedDefaults _) = True"
| "optimizer_event (RunningEvaluation _) = True"
| "optimizer_event (EvaluationResults _) = True"
| "optimizer_event (ImprovementVerified _) = True"
| "optimizer_event Discarding = True"
| "optimizer_event _ = False"

text \<open>
  The answer of the gateway to the mutation request of an optimization of \<open>segment_key\<close>
  on the store \<open>s\<close>: the request carries the industry and the country cut out of the
  segment key and the first non-empty prompt among the one stored under the segment key,
  the one stored under the base key and the hardcoded one.
\<close>

definition mutation_answer ::
  "world \<Rightarrow> string \<Rightarrow> string \<Rightarrow> json \<Rightarrow> store \<Rightarrow> error + string option" where
  "mutation_answer w segment_key transcript outcome s =
     mutation w
       (if 1 < length (split_colon segment_key) then split_colon segment_key ! 1 else ''general'')
       (if 0 < length (split_colon segment_key) then split_colon segment_key ! 0 else ''US'')
       (py_or (strings s (''prompt:segment:'' @ segment_key))
          (py_or (strings s ''prompt:base'') ''You are a helpful sales agent.''))
       transcript outcome"

text \<open>The corpus a candidate is evaluated on: the stored one, or the defaults when it is empty.\<close>

definition evaluated_cases :: "store \<Rightarrow> test_case list" where
  "evaluated_cases s = (if test_cases s = [] then default_cases else test_cases s)"

definition store_of :: "(string \<times> string) list \<Rightarrow> store" where
  "store_of kvs = \<lparr>strings = map_of kvs, skills = Map.empty, test_cases = []\<rparr>"

definition state_of :: "(string \<times> string) list \<Rightarrow> state" where
  "state_of kvs = \<lparr>db = store_of kvs, out = []\<rparr>"

definition sample_analysis :: "real \<Rightarrow> json" where
  "sample_analysis q =
     JObj [(''objection'', JStr ''It is too expensive.''),
           (''rebuttal'', JStr ''Compare the total cost of ownership.''),
           (''quality_score'', JNum q)]"

definition summary_with_mean :: "real \<Rightarrow> json" where
  "summary_with_mean m =
     JObj [(''LLMPromptQualityScorer'', JObj [(''overall_score'', JObj [(''mean'', JNum m)])])]"

definition sample_hash :: "json \<Rightarrow> int" where
  "sample_hash v = (case v of JStr t \<Rightarrow> int (length t) | _ \<Rightarrow> 0)"

text \<open>
  The evaluation library of the samples: a row whose \<^verbatim>\<open>predict\<close> or \<^verbatim>\<open>score\<close> raised is
  kept without scores and the evaluation goes on; the summary reports the mean of
  \<^verbatim>\<open>overall_score\<close> over the rows that have a number there.
\<close>

definition overall_score_of :: "error + json \<Rightarrow> real option" where
  "overall_score_of row =
     (case row of
        Inr (JObj d) \<Rightarrow> (case map_of d ''overall_score'' of Some (JNum x) \<Rightarrow> Some x | _ \<Rightarrow> None)
      | _ \<Rightarrow> None)"

definition mean_of_scored_rows :: "(error + json) list \<Rightarrow> error + json" where
  "mean_of_scored_rows rows =
     (let xs = List.map_filter overall_score_of rows in
      if xs = [] then Inr (JObj [(''LLMPromptQualityScorer'', JObj [])])
      else Inr (summary_with_mean (sum_list xs / real (length xs))))"

text \<open>
  A world whose classifier answers \<open>c\<close>, whose extractor answers \<open>x\<close>, whose mutation
  appends one rule to the current prompt, and whose judge gives every simulated answer
  the overall score \<open>m\<close>.
\<close>

definition sample_world :: "json_response \<Rightarrow> json_response \<Rightarrow> real \<Rightarrow> world" where
  "sample_world c x m =
     \<lparr>classification = (\<lambda>_. Inr c),
      extraction = (\<lambda>_. Inr x),
      mutation = (\<lambda>_ _ current _ _. Inr (Some (current @ '' Quote the ROI. ''))),
      simulation = (\<lambda>_ _. Inr (Some ''Let me show you the numbers.'')),
      judgement = (\<lambda>_ _ _. Inr (Document (JObj [(''overall_score'', JNum m)]))),
      summarize = mean_of_scored_rows,
      embedding = (\<lambda>_. Inr [1, 0]),
      py_hash = sample_hash\<rparr>"

definition in_progress_document :: json where
  "in_progress_document =
     JObj [(''outcome'', JStr ''IN_PROGRESS''),
           (''confidence'', JNum 0.9),
           (''reason'', JStr ''The prospect asked for more details.'')]"



text \<open>The mutation returns the current prompt it was sent.\<close>

definition mutation_echo :: "world \<Rightarrow> world" where
  "mutation_echo w = w\<lparr>mutation := (\<lambda>_ _ current _ _. Inr (Some current))\<rparr>"

text \<open>
  The state after a human manager's high-quality closed deal has been processed from the
  empty store: the lesson of \<open>sample_analysis\<close> is in the Skill Store.
\<close>

definition state_after_lesson :: state where
  "state_after_lesson =
     snd (process_call_outcome (sample_world Malformed (Document (sample_analysis 0.9)) 0.9)
            ''Manager: compare the total cost.'' ''HUMAN_MANAGER'' (Some ''CLOSED_DEAL'')
            ''US'' ''general'' (state_of []))"






section \<open>Properties of segment resolution\<close>

lemma py_or_nonempty: "d \<noteq> [] \<Longrightarrow> py_or v d \<noteq> []"
  by (simp add: py_or_def split: option.splits)

text \<open>
  Claim C8. For every country, industry and store, \<open>get_prompt_for_segment\<close> returns a
  non-empty string, and it returns the first non-empty prompt stored under, in this order,
  the exact \<^verbatim>\<open>country:industry\<close> key, the industry-only wildcard key and the global base
  key, and the hardcoded default when none of the three holds a non-empty prompt.
\<close>

theorem get_prompt_for_segment_precedence:
  "get_prompt_for_segment s country industry \<noteq> [] \<and>
   (\<forall>p. strings s (''prompt:segment:'' @ country @ '':'' @ industry) = Some p \<and> p \<noteq> []
        \<longrightarrow> get_prompt_for_segment s country industry = p) \<and>
   (\<not> truthy (strings s (''prompt:segment:'' @ country @ '':'' @ industry)) \<longrightarrow>
      (\<forall>p. strings s (''prompt:segment:*:'' @ industry) = Some p \<and> p \<noteq> []
         \<longrightarrow> get_prompt_for_segment s country industry = p)) \<and>
   (\<not> truthy (strings s (''prompt:segment:'' @ country @ '':'' @ industry)) \<and>
    \<not> truthy (strings s (''prompt:segment:*:'' @ industry)) \<longrightarrow>
      (\<forall>p. strings s ''prompt:base'' = Some p \<and> p \<noteq> []
         \<longrightarrow> get_prompt_for_segment s country industry = p)) \<and>
   (\<not> truthy (strings s (''prompt:segment:'' @ country @ '':'' @ industry)) \<and>
    \<not> truthy (strings s (''prompt:segment:*:'' @ industry)) \<and>
    \<not> truthy (strings s ''prompt:base'')
      \<longrightarrow> get_prompt_for_segment s country industry = default_prompt)"
proof -
  have d: "default_prompt \<noteq> []" by (simp add: default_prompt_def)
  show ?thesis
    unfolding get_prompt_for_segment_def Let_def segment_key_of_def r_get_def
    using d by (auto simp: py_or_def truthy_def split: option.splits)
qed

theorem get_prompt_for_segment_precedence_witness:
  "get_prompt_for_segment (store_of [(''prompt:base'', ''Base prompt.'')]) ''DE'' ''fintech''
     = ''Base prompt.'' \<and>
   get_prompt_for_segment
     (store_of [(''prompt:base'', ''Base prompt.''), (''prompt:segment:DE:fintech'', ''German fintech prompt.'')])
     ''DE'' ''fintech'' = ''German fintech prompt.'' \<and>
   get_prompt_for_segment
     (store_of [(''prompt:base'', ''Base prompt.''), (''prompt:segment:*:fintech'', ''Fintech prompt.'')])
     ''DE'' ''fintech'' = ''Fintech prompt.'' \<and>
   get_prompt_for_segment (store_of []) ''DE'' ''fintech'' = ''You are a helpful sales agent.''"
  using get_prompt_for_segment_precedence
          [of "store_of [(''prompt:base'', ''Base prompt.'')]" "''DE''" "''fintech''"]
        get_prompt_for_segment_precedence
          [of "store_of [(''prompt:base'', ''Base prompt.''), (''prompt:segment:DE:fintech'', ''German fintech prompt.'')]" "''DE''" "''fintech''"]
        get_prompt_for_segment_precedence
          [of "store_of [(''prompt:base'', ''Base prompt.''), (''prompt:segment:*:fintech'', ''Fintech prompt.'')]" "''DE''" "''fintech''"]
        get_prompt_for_segment_precedence [of "store_of []" "''DE''" "''fintech''"]
  by (simp add: store_of_def truthy_def default_prompt_def)

section \<open>Properties of the Outcome Classifier\<close>

lemma determine_call_outcome_soft_fail:
  "classification w transcript = Inr r \<Longrightarrow> json_loads r = Inl e \<Longrightarrow>
   determine_call_outcome w transcript st = (Inr (JStr ''LOST_DEAL''), print CouldNotParseOutcome st)"
  by (simp add: determine_call_outcome_def)

text \<open>
  Claim C2. The classifier returns the value of the \<^verbatim>\<open>"outcome"\<close> entry as the model wrote
  it: for a document whose outcome is \<^verbatim>\<open>"IN_PROGRESS"\<close> it returns that third value.
\<close>

theorem determine_call_outcome_third_value:
  "fst (determine_call_outcome (sample_world (Document in_progress_document) Malformed 0)
          ''Customer: Tell me more.'' (state_of []))
     = Inr (JStr ''IN_PROGRESS'')"
  by (simp add: determine_call_outcome_def sample_world_def in_progress_document_def
      json_loads_def method_get_def dict_get_def format_2f_def)

section \<open>Properties of the Routing Policy\<close>

lemma process_call_outcome_given:
  "extraction w transcript = Inr (Document analysis) \<Longrightarrow>
   process_call_outcome w transcript speaker_role (Some oc) country industry st =
     router w transcript speaker_role (JStr oc) (segment_key_of country industry) analysis st"
  by (simp add: process_call_outcome_def json_loads_def)

text \<open>
  Claim C4. For every call with speaker role \<^verbatim>\<open>HUMAN_MANAGER\<close>, outcome \<^verbatim>\<open>CLOSED_DEAL\<close> and
  an extracted quality score that is at most 0.8, the routing returns the status
  \<^verbatim>\<open>no_action_needed\<close> and leaves the store and the output as they were: no skill is
  written, no test case is added and no optimization runs.
\<close>

theorem low_quality_human_win_is_no_action:
  assumes "extraction w transcript = Inr (Document analysis)"
    and "subscript analysis ''quality_score'' = Inr quality_score"
    and "as_number quality_score = Some q"
    and "q \<le> 0.8"
  shows "process_call_outcome w transcript ''HUMAN_MANAGER'' (Some ''CLOSED_DEAL'') country industry st
           = (Inr (JObj [(''status'', JStr ''no_action_needed'')]), st)"
  using assms
  by (simp add: process_call_outcome_given router_def py_gt_def scenario_c_def)

theorem low_quality_human_win_is_no_action_witness:
  "process_call_outcome (sample_world Malformed (Document (sample_analysis 0.5)) 0.9)
     ''Manager: let me know.'' ''HUMAN_MANAGER'' (Some ''CLOSED_DEAL'') ''US'' ''general''
     (state_of [(''prompt:base'', ''Base prompt.'')])
   = (Inr (JObj [(''status'', JStr ''no_action_needed'')]), state_of [(''prompt:base'', ''Base prompt.'')])"
proof -
  have a: "extraction (sample_world Malformed (Document (sample_analysis 0.5)) 0.9) ''Manager: let me know.''
             = Inr (Document (sample_analysis 0.5))"
    by (simp add: sample_world_def)
  have b: "subscript (sample_analysis 0.5) ''quality_score'' = Inr (JNum 0.5)"
    by (simp add: subscript_def sample_analysis_def)
  have c: "as_number (JNum 0.5) = Some 0.5"
    by (simp add: as_number_def)
  have d: "(0.5::real) \<le> 0.8" by simp
  show ?thesis
    by (rule low_quality_human_win_is_no_action [OF a b c d])
qed

text \<open>
  Claim C3 (as stated): a \<^verbatim>\<open>HUMAN_MANAGER\<close> call with outcome \<^verbatim>\<open>CLOSED_DEAL\<close> and quality
  score 0.5 would report \<^verbatim>\<open>prompt_optimized\<close>. It reports \<^verbatim>\<open>no_action_needed\<close> and prints
  nothing.
\<close>

theorem low_quality_human_win_not_optimized:
  "status_of (fst (process_call_outcome (sample_world Malformed (Document (sample_analysis 0.5)) 0.9)
                     ''Manager: let me know.'' ''HUMAN_MANAGER'' (Some ''CLOSED_DEAL'') ''US'' ''general''
                     (state_of [(''prompt:base'', ''Base prompt.'')])))
     \<noteq> Some (JStr ''prompt_optimized'') \<and>
   out (snd (process_call_outcome (sample_world Malformed (Document (sample_analysis 0.5)) 0.9)
               ''Manager: let me know.'' ''HUMAN_MANAGER'' (Some ''CLOSED_DEAL'') ''US'' ''general''
               (state_of [(''prompt:base'', ''Base prompt.'')]))) = []"
  by (simp add: process_call_outcome_def router_def scenario_c_def sample_world_def
      sample_analysis_def json_loads_def subscript_def py_gt_def as_number_def status_of_def
      state_of_def)

text \<open>
  Claim C6. When the answer of the Objection/Rebuttal Extractor does not parse as JSON,
  \<open>process_call_outcome\<close> ends with an error and the store is as it was before the call.
  With the outcome given by the caller the error is the one of \<^verbatim>\<open>json.loads\<close> and nothing
  was printed either; the same error is raised when the outcome is determined
  automatically and the classifier's gateway call does not raise.
\<close>

theorem unparsable_extraction_aborts:
  assumes "extraction w transcript = Inr response"
    and "json_loads response = Inl e"
  shows "(\<exists>e'. fst (process_call_outcome w transcript speaker_role outcome_arg country industry st) = Inl e') \<and>
         db (snd (process_call_outcome w transcript speaker_role outcome_arg country industry st)) = db st \<and>
         (\<forall>oc. outcome_arg = Some oc \<longrightarrow>
            process_call_outcome w transcript speaker_role outcome_arg country industry st = (Inl e, st)) \<and>
         (\<forall>r. classification w transcript = Inr r \<longrightarrow>
            fst (process_call_outcome w transcript speaker_role outcome_arg country industry st) = Inl e)"
proof -
  have dco: "db (snd (determine_call_outcome w transcript st)) = db st"
    by (auto simp: determine_call_outcome_def Let_def print_def split: sum.splits)
  have cls: "\<And>r. classification w transcript = Inr r \<Longrightarrow>
               \<exists>oc. fst (determine_call_outcome w transcript st) = Inr oc"
    by (auto simp: determine_call_outcome_def Let_def split: sum.splits)
  show ?thesis
  proof (cases outcome_arg)
    case (Some oc)
    then show ?thesis using assms by (simp add: process_call_outcome_def)
  next
    case None
    obtain res st1 where d: "determine_call_outcome w transcript st = (res, st1)"
      by (cases "determine_call_outcome w transcript st")
    have st1: "db st1 = db st" using dco d by simp
    show ?thesis
    proof (cases res)
      case (Inl e0)
      then show ?thesis using None d st1 cls by (fastforce simp: process_call_outcome_def)
    next
      case (Inr oc)
      then show ?thesis using None d st1 assms
        by (simp add: process_call_outcome_def print_def)
    qed
  qed
qed

theorem unparsable_extraction_aborts_witness:
  "process_call_outcome (sample_world Malformed Malformed 0.9) ''Customer: hello'' ''AI_AGENT''
     (Some ''LOST_DEAL'') ''US'' ''general'' (state_of [(''prompt:base'', ''Base prompt.'')])
   = (Inl JSONDecodeError, state_of [(''prompt:base'', ''Base prompt.'')]) \<and>
   fst (process_call_outcome (sample_world Malformed Malformed 0.9) ''Customer: hello'' ''AI_AGENT''
          None ''US'' ''general'' (state_of [(''prompt:base'', ''Base prompt.'')]))
   = Inl JSONDecodeError"
proof -
  have a: "extraction (sample_world Malformed Malformed 0.9) ''Customer: hello'' = Inr Malformed"
    by (simp add: sample_world_def)
  have b: "json_loads Malformed = Inl JSONDecodeError"
    by (simp add: json_loads_def)
  show ?thesis
    using unparsable_extraction_aborts [OF a b, of "''AI_AGENT''" "Some ''LOST_DEAL''" "''US''" "''general''"
        "state_of [(''prompt:base'', ''Base prompt.'')]"]
      unparsable_extraction_aborts [OF a b, of "''AI_AGENT''" None "''US''" "''general''"
        "state_of [(''prompt:base'', ''Base prompt.'')]"]
    by (simp add: sample_world_def)
qed

section \<open>Properties of the Prompt Optimizer\<close>


lemma initialize_default_test_cases_skills:
  "skills (db (initialize_default_test_cases st)) = skills (db st)"
proof -
  have "\<And>s. skills (foldl r_rpush s cs) = skills s" for cs
    by (induction cs) (simp_all add: r_rpush_def)
  then show ?thesis
    by (simp add: initialize_default_test_cases_def on_db_def print_def)
qed


lemma seeded_skills:
  "skills (db (if get_test_cases_from_redis st = [] then initialize_default_test_cases st else st))
     = skills (db st)"
  by (simp add: initialize_default_test_cases_skills)

lemma seeded_cases:
  "get_test_cases_from_redis
     (if get_test_cases_from_redis st = [] then initialize_default_test_cases st else st)
     = evaluated_cases (db st)"
proof -
  have "\<And>s. test_cases (foldl r_rpush s cs) = test_cases s @ cs" for cs
    by (induction cs) (simp_all add: r_rpush_def)
  then show ?thesis
    by (simp add: get_test_cases_from_redis_def evaluated_cases_def
        initialize_default_test_cases_def r_exists_test_cases_def on_db_def print_def)
qed

lemma as_number_format_2f: "as_number v = Some m \<Longrightarrow> format_2f v = Inr ()"
  by (cases v) (simp_all add: as_number_def format_2f_def)

lemma format_2f_as_number: "format_2f v = Inr u \<Longrightarrow> \<exists>m. as_number v = Some m"
  by (cases v) (simp_all add: as_number_def format_2f_def)

lemma optimize_and_verify_mutation_error:
  "mutation_answer w segment_key transcript outcome (db st) = Inl e \<Longrightarrow>
   optimize_and_verify w segment_key transcript outcome st = (Inl e, st)"
  by (simp add: optimize_and_verify_def mutation_answer_def Let_def r_get_def)

lemma optimize_and_verify_mutation_none:
  "mutation_answer w segment_key transcript outcome (db st) = Inr None \<Longrightarrow>
   optimize_and_verify w segment_key transcript outcome st = (Inl AttributeError, st)"
  by (simp add: optimize_and_verify_def mutation_answer_def Let_def r_get_def)

lemma optimize_and_verify_evaluation_error:
  "mutation_answer w segment_key transcript outcome (db st) = Inr (Some text) \<Longrightarrow>
   evaluate w (strip text) (evaluated_cases (db st)) = Inl e \<Longrightarrow>
   optimize_and_verify w segment_key transcript outcome st =
     (Inl e, print (RunningEvaluation (length (evaluated_cases (db st))))
               (if get_test_cases_from_redis st = [] then initialize_default_test_cases st else st))"
  by (simp add: optimize_and_verify_def mutation_answer_def Let_def r_get_def seeded_cases)

lemma optimize_and_verify_summary_error:
  "mutation_answer w segment_key transcript outcome (db st) = Inr (Some text) \<Longrightarrow>
   evaluate w (strip text) (evaluated_cases (db st)) = Inr results \<Longrightarrow>
   avg_score_of results = Inl e \<Longrightarrow>
   optimize_and_verify w segment_key transcript outcome st =
     (Inl e, print (RunningEvaluation (length (evaluated_cases (db st))))
               (if get_test_cases_from_redis st = [] then initialize_default_test_cases st else st))"
  by (simp add: optimize_and_verify_def mutation_answer_def Let_def r_get_def seeded_cases)

lemma optimize_and_verify_format_error:
  "mutation_answer w segment_key transcript outcome (db st) = Inr (Some text) \<Longrightarrow>
   evaluate w (strip text) (evaluated_cases (db st)) = Inr results \<Longrightarrow>
   avg_score_of results = Inr avg \<Longrightarrow> format_2f avg = Inl e \<Longrightarrow>
   optimize_and_verify w segment_key transcript outcome st =
     (Inl e, print (RunningEvaluation (length (evaluated_cases (db st))))
               (if get_test_cases_from_redis st = [] then initialize_default_test_cases st else st))"
  by (simp add: optimize_and_verify_def mutation_answer_def Let_def r_get_def seeded_cases)

lemma optimize_and_verify_gate_reached:
  "mutation_answer w segment_key transcript outcome (db st) = Inr (Some text) \<Longrightarrow>
   evaluate w (strip text) (evaluated_cases (db st)) = Inr results \<Longrightarrow>
   avg_score_of results = Inr avg \<Longrightarrow> as_number avg = Some m \<Longrightarrow>
   optimize_and_verify w segment_key transcript outcome st =
     (let st3 = print (EvaluationResults avg)
                  (print (RunningEvaluation (length (evaluated_cases (db st))))
                     (if get_test_cases_from_redis st = []
                      then initialize_default_test_cases st else st))
      in if m \<ge> 0.5
         then (Inr (strip text),
               on_db (\<lambda>s. r_set s (''prompt:segment:'' @ segment_key) (strip text))
                 (print (ImprovementVerified segment_key) st3))
         else (Inr (strip text), print Discarding st3))"
  by (simp add: optimize_and_verify_def mutation_answer_def Let_def r_get_def seeded_cases
      as_number_format_2f py_ge_def)

text \<open>The five ways in which a run of \<open>optimize_and_verify\<close> ends.\<close>

lemma optimize_and_verify_cases:
  obtains
    (mutation_error) e where
      "mutation_answer w segment_key transcript outcome (db st) = Inl e"
  | (mutation_none)
      "mutation_answer w segment_key transcript outcome (db st) = Inr None"
  | (evaluation_error) reply e where
      "mutation_answer w segment_key transcript outcome (db st) = Inr (Some reply)"
      "evaluate w (strip reply) (evaluated_cases (db st)) = Inl e"
  | (summary_error) reply results e where
      "mutation_answer w segment_key transcript outcome (db st) = Inr (Some reply)"
      "evaluate w (strip reply) (evaluated_cases (db st)) = Inr results"
      "avg_score_of results = Inl e \<or> (\<exists>avg. avg_score_of results = Inr avg \<and> format_2f avg = Inl e)"
  | (gate) reply results avg m where
      "mutation_answer w segment_key transcript outcome (db st) = Inr (Some reply)"
      "evaluate w (strip reply) (evaluated_cases (db st)) = Inr results"
      "avg_score_of results = Inr avg" "as_number avg = Some m"
proof (cases "mutation_answer w segment_key transcript outcome (db st)")
  case (Inl e)
  then show ?thesis by (rule mutation_error)
next
  case (Inr answer)
  show ?thesis
  proof (cases answer)
    case None
    then show ?thesis using Inr mutation_none by simp
  next
    case (Some reply)
    then have m: "mutation_answer w segment_key transcript outcome (db st) = Inr (Some reply)"
      using Inr by simp
    show ?thesis
    proof (cases "evaluate w (strip reply) (evaluated_cases (db st))")
      case (Inl e)
      then show ?thesis using m evaluation_error by blast
    next
      case ev: (Inr results)
      show ?thesis
      proof (cases "avg_score_of results")
        case (Inl e)
        then show ?thesis using m ev summary_error by blast
      next
        case avg: (Inr avg)
        show ?thesis
        proof (cases "format_2f avg")
          case (Inl e)
          then show ?thesis using m ev avg summary_error by blast
        next
          case (Inr u)
          then obtain x where "as_number avg = Some x"
            using format_2f_as_number by blast
          then show ?thesis using m ev avg gate by blast
        qed
      qed
    qed
  qed
qed


lemma optimize_and_verify_skills:
  assumes "optimize_and_verify w segment_key transcript outcome st = (res, st')"
  shows "skills (db st') = skills (db st)"
proof (cases rule: optimize_and_verify_cases [of w segment_key transcript outcome st])
  case (mutation_error e')
  then show ?thesis using assms optimize_and_verify_mutation_error by fastforce
next
  case mutation_none
  then show ?thesis using assms optimize_and_verify_mutation_none by fastforce
next
  case (evaluation_error reply e')
  from optimize_and_verify_evaluation_error [OF this] assms
  show ?thesis using seeded_skills [of st] by (auto simp: print_def)
next
  case (summary_error reply results e')
  then have "optimize_and_verify w segment_key transcript outcome st =
     (Inl e', print (RunningEvaluation (length (evaluated_cases (db st))))
               (if get_test_cases_from_redis st = [] then initialize_default_test_cases st else st))"
    using optimize_and_verify_summary_error optimize_and_verify_format_error by blast
  then show ?thesis using assms seeded_skills [of st] by (auto simp: print_def)
next
  case (gate reply results avg m)
  from optimize_and_verify_gate_reached [OF this] assms show ?thesis
    using seeded_skills [of st]
    by (auto simp: Let_def print_def on_db_def r_set_def split: if_splits)
qed

lemma seeded_other_output:
  "filter (\<lambda>e. \<not> optimizer_event e)
     (out (if get_test_cases_from_redis st = [] then initialize_default_test_cases st else st))
   = filter (\<lambda>e. \<not> optimizer_event e) (out st)"
  by (simp add: initialize_default_test_cases_def on_db_def print_def)

lemma optimize_and_verify_other_output:
  assumes "optimize_and_verify w segment_key transcript outcome st = (res, st')"
  shows "filter (\<lambda>e. \<not> optimizer_event e) (out st') = filter (\<lambda>e. \<not> optimizer_event e) (out st)"
proof (cases rule: optimize_and_verify_cases [of w segment_key transcript outcome st])
  case (mutation_error e')
  then show ?thesis using assms optimize_and_verify_mutation_error by fastforce
next
  case mutation_none
  then show ?thesis using assms optimize_and_verify_mutation_none by fastforce
next
  case (evaluation_error reply e')
  from optimize_and_verify_evaluation_error [OF this] assms
  show ?thesis using seeded_other_output [of st] by (auto simp: print_def)
next
  case (summary_error reply results e')
  then have "optimize_and_verify w segment_key transcript outcome st =
     (Inl e', print (RunningEvaluation (length (evaluated_cases (db st))))
               (if get_test_cases_from_redis st = [] then initialize_default_test_cases st else st))"
    using optimize_and_verify_summary_error optimize_and_verify_format_error by blast
  then show ?thesis using assms seeded_other_output [of st] by (auto simp: print_def)
next
  case (gate reply results avg m)
  from optimize_and_verify_gate_reached [OF this] assms show ?thesis
    using seeded_other_output [of st]
    by (auto simp: Let_def print_def on_db_def split: if_splits)
qed

subsection \<open>The sample worlds\<close>

lemma evaluated_cases_state_of: "evaluated_cases (db (state_of kvs)) = default_cases"
  by (simp add: evaluated_cases_def state_of_def store_of_def)

lemma predict_sample:
  "predict (sample_world c x m) candidate inp = Inr ''Let me show you the numbers.''"
  by (simp add: predict_def sample_world_def strip_def is_space_def)

lemma score_sample:
  "score (sample_world c x m) output inp target =
     Inr (JObj [(''addresses_objection'', JBool False), (''professional_tone'', JBool False),
                (''aligns_with_target'', JBool False), (''overall_score'', JNum m)])"
  by (simp add: score_def sample_world_def json_loads_def dict_get_def)

lemma summarize_sample: "summarize (sample_world c x m) = mean_of_scored_rows"
  by (simp add: sample_world_def)

lemma evaluate_sample:
  "evaluate (sample_world c x m) candidate default_cases = Inr (summary_with_mean m)"
proof -
  have "map (predict_and_score (sample_world c x m) candidate) default_cases =
          replicate 3 (Inr (JObj [(''addresses_objection'', JBool False),
                                  (''professional_tone'', JBool False),
                                  (''aligns_with_target'', JBool False),
                                  (''overall_score'', JNum m)]))"
    by (simp add: predict_and_score_def predict_sample score_sample default_cases_def
        numeral_3_eq_3)
  then show ?thesis
    by (simp add: evaluate_def summarize_sample mean_of_scored_rows_def overall_score_of_def
        List.map_filter_simps numeral_3_eq_3)
qed

lemma avg_score_of_summary: "avg_score_of (summary_with_mean m) = Inr (JNum m)"
  by (simp add: avg_score_of_def summary_with_mean_def method_get_def dict_get_def)






lemma evaluate_mutation_echo: "evaluate (mutation_echo w) = evaluate w"
proof -
  have "score (mutation_echo w) = score w"
    by (intro ext) (simp add: score_def mutation_echo_def)
  moreover have "predict (mutation_echo w) = predict w"
    by (intro ext) (simp add: predict_def mutation_echo_def)
  ultimately have "predict_and_score (mutation_echo w) = predict_and_score w"
    by (intro ext) (simp add: predict_and_score_def split: sum.splits)
  then show ?thesis
    by (intro ext) (simp add: evaluate_def mutation_echo_def)
qed

lemma strip_default: "strip ''You are a helpful sales agent.'' = ''You are a helpful sales agent.''"
  by (simp add: strip_def is_space_def)

lemma strip_base: "strip ''Base prompt.'' = ''Base prompt.''"
  by (simp add: strip_def is_space_def)

text \<open>
  Claim C9. With a prompt stored under the industry wildcard key only,
  \<open>get_prompt_for_segment\<close> resolves \<^verbatim>\<open>DE\<close>, \<^verbatim>\<open>fintech\<close> to the wildcard prompt, while
  \<open>optimize_and_verify\<close> for the segment \<^verbatim>\<open>DE:fintech\<close> sends the hardcoded default to the
  mutation (the sample mutation returns the prompt it was sent, so the candidate shows
  it), and after the gate has passed the rewritten default stands under the exact key,
  in front of the wildcard prompt. With a base prompt stored as well the optimizer sends
  the base prompt, still not the wildcard prompt.
\<close>

theorem optimizer_skips_wildcard_prompt:
  "get_prompt_for_segment (db (state_of [(''prompt:segment:*:fintech'', ''Fintech prompt.'')]))
     ''DE'' ''fintech'' = ''Fintech prompt.'' \<and>
   fst (optimize_and_verify (mutation_echo (sample_world Malformed Malformed 0.9)) ''DE:fintech''
          ''Customer: no.'' (JStr ''LOST_DEAL'')
          (state_of [(''prompt:segment:*:fintech'', ''Fintech prompt.'')]))
     = Inr ''You are a helpful sales agent.'' \<and>
   get_prompt_for_segment
     (db (snd (optimize_and_verify (mutation_echo (sample_world Malformed Malformed 0.9)) ''DE:fintech''
                 ''Customer: no.'' (JStr ''LOST_DEAL'')
                 (state_of [(''prompt:segment:*:fintech'', ''Fintech prompt.'')]))))
     ''DE'' ''fintech'' = ''You are a helpful sales agent.'' \<and>
   get_prompt_for_segment
     (db (state_of [(''prompt:segment:*:fintech'', ''Fintech prompt.''), (''prompt:base'', ''Base prompt.'')]))
     ''DE'' ''fintech'' = ''Fintech prompt.'' \<and>
   fst (optimize_and_verify (mutation_echo (sample_world Malformed Malformed 0.9)) ''DE:fintech''
          ''Customer: no.'' (JStr ''LOST_DEAL'')
          (state_of [(''prompt:segment:*:fintech'', ''Fintech prompt.''), (''prompt:base'', ''Base prompt.'')]))
     = Inr ''Base prompt.''"
proof -
  let ?w = "mutation_echo (sample_world Malformed Malformed 0.9)"
  let ?s1 = "state_of [(''prompt:segment:*:fintech'', ''Fintech prompt.'')]"
  let ?s2 = "state_of [(''prompt:segment:*:fintech'', ''Fintech prompt.''), (''prompt:base'', ''Base prompt.'')]"
  have g1: "get_prompt_for_segment (db ?s1) ''DE'' ''fintech'' = ''Fintech prompt.''"
    by (simp add: get_prompt_for_segment_def segment_key_of_def r_get_def state_of_def
        store_of_def py_or_def)
  have g2: "get_prompt_for_segment (db ?s2) ''DE'' ''fintech'' = ''Fintech prompt.''"
    by (simp add: get_prompt_for_segment_def segment_key_of_def r_get_def state_of_def
        store_of_def py_or_def)
  have m1: "mutation_answer ?w ''DE:fintech'' ''Customer: no.'' (JStr ''LOST_DEAL'') (db ?s1)
              = Inr (Some ''You are a helpful sales agent.'')"
    by (simp add: mutation_answer_def mutation_echo_def state_of_def store_of_def py_or_def)
  have m2: "mutation_answer ?w ''DE:fintech'' ''Customer: no.'' (JStr ''LOST_DEAL'') (db ?s2)
              = Inr (Some ''Base prompt.'')"
    by (simp add: mutation_answer_def mutation_echo_def state_of_def store_of_def py_or_def)
  have ev: "evaluate ?w candidate (evaluated_cases (db (state_of kvs))) = Inr (summary_with_mean 0.9)"
    for candidate kvs
    by (simp add: evaluate_mutation_echo evaluated_cases_state_of evaluate_sample)
  have n: "as_number (JNum 0.9) = Some 0.9" by (simp add: as_number_def)
  note r1 = optimize_and_verify_gate_reached [OF m1 ev avg_score_of_summary n]
  note r2 = optimize_and_verify_gate_reached [OF m2 ev avg_score_of_summary n]
  have a: "fst (optimize_and_verify ?w ''DE:fintech'' ''Customer: no.'' (JStr ''LOST_DEAL'') ?s1)
             = Inr ''You are a helpful sales agent.''"
    unfolding r1 by (simp add: Let_def strip_default)
  have b: "get_prompt_for_segment
             (db (snd (optimize_and_verify ?w ''DE:fintech'' ''Customer: no.'' (JStr ''LOST_DEAL'') ?s1)))
             ''DE'' ''fintech'' = ''You are a helpful sales agent.''"
    unfolding r1
    by (simp add: Let_def strip_default on_db_def r_set_def print_def get_prompt_for_segment_def
        segment_key_of_def r_get_def py_or_def)
  have c: "fst (optimize_and_verify ?w ''DE:fintech'' ''Customer: no.'' (JStr ''LOST_DEAL'') ?s2)
             = Inr ''Base prompt.''"
    unfolding r2 by (simp add: Let_def strip_base)
  show ?thesis using g1 a b g2 c by (intro conjI)
qed

section \<open>Routing: when optimization runs\<close>

lemma store_lesson_in_redis_quiet:
  assumes "store_lesson_in_redis w analysis st = (res, st')"
  shows "strings (db st') = strings (db st) \<and> out st' = out st \<and> test_cases (db st') = test_cases (db st)"
  using assms unfolding store_lesson_in_redis_def
  by (auto simp: on_db_def r_hset_def split: sum.splits)

lemma add_test_case_from_lesson_quiet:
  assumes "add_test_case_from_lesson ob rb st = (res, st')"
  shows "strings (db st') = strings (db st) \<and>
         filter optimizer_event (out st') = filter optimizer_event (out st)"
  using assms unfolding add_test_case_from_lesson_def Let_def
  by (auto simp: on_db_def r_rpush_def print_def split: sum.splits)

lemma scenario_a_quiet:
  assumes "scenario_a w segment_key analysis st = (res, st')"
  shows "strings (db st') = strings (db st) \<and>
         filter optimizer_event (out st') = filter optimizer_event (out st)"
proof (cases "subscript analysis ''objection''")
  case (Inl e)
  then show ?thesis using assms by (simp add: scenario_a_def)
next
  case ob: (Inr ob)
  obtain r1 st1 where s: "store_lesson_in_redis w analysis (print (GoldFound ob) st) = (r1, st1)"
    by (cases "store_lesson_in_redis w analysis (print (GoldFound ob) st)")
  have q1: "strings (db st1) = strings (db st) \<and>
            filter optimizer_event (out st1) = filter optimizer_event (out st)"
    using store_lesson_in_redis_quiet [OF s] by (simp add: print_def)
  show ?thesis
  proof (cases r1)
    case (Inl e)
    then show ?thesis using assms ob s q1 by (simp add: scenario_a_def)
  next
    case (Inr u)
    show ?thesis
    proof (cases "subscript analysis ''rebuttal''")
      case (Inl e)
      then show ?thesis using assms ob s q1 Inr by (simp add: scenario_a_def)
    next
      case rb: (Inr rb)
      obtain r2 st2 where a: "add_test_case_from_lesson ob rb st1 = (r2, st2)"
        by (cases "add_test_case_from_lesson ob rb st1")
      have "st' = st2" using assms ob s Inr rb a
        by (cases r2) (simp_all add: scenario_a_def)
      then show ?thesis using add_test_case_from_lesson_quiet [OF a] q1 by simp
    qed
  qed
qed

lemma scenario_a_result:
  assumes "scenario_a w segment_key analysis st = (Inr r, st')"
  shows "r = JObj [(''status'', JStr ''learned_new_skill''), (''data'', analysis),
                   (''segment'', JStr segment_key)]"
  using assms unfolding scenario_a_def Let_def
  by (auto split: sum.splits prod.splits)

lemma scenario_c_not_lost:
  "outcome \<noteq> JStr ''LOST_DEAL'' \<Longrightarrow>
   scenario_c w transcript outcome segment_key st
     = (Inr (JObj [(''status'', JStr ''no_action_needed'')]), st)"
  by (simp add: scenario_c_def)

lemma scenario_b_not_lost:
  assumes "outcome \<noteq> JStr ''LOST_DEAL''"
    and "scenario_b w transcript outcome segment_key analysis st = (res, st')"
  shows "strings (db st') = strings (db st) \<and>
         filter optimizer_event (out st') = filter optimizer_event (out st) \<and>
         (\<forall>r. res = Inr r \<longrightarrow> (\<exists>g. r = JObj [(''status'', JStr ''graded_agent''), (''score'', JNum g)]))"
  using assms unfolding scenario_b_def Let_def
  by (auto simp: print_def split: sum.splits)

lemma scenario_b_grades:
  assumes "outcome \<noteq> JStr ''LOST_DEAL''"
    and "subscript analysis ''objection'' = Inr ob"
    and "hash_of w ob = Inr h"
    and "subscript analysis ''rebuttal'' = Inr rb"
  shows "scenario_b w transcript outcome segment_key analysis st =
           (Inr (JObj [(''status'', JStr ''graded_agent''),
                       (''score'', JNum (grading_score_of rb (r_hget_rebuttal (db st) h)))]),
            print (GradingAI (grading_score_of rb (r_hget_rebuttal (db st) h))) st)"
  using assms unfolding scenario_b_def Let_def by simp

lemma router_not_lost:
  assumes nl: "outcome \<noteq> JStr ''LOST_DEAL''"
    and run: "router w transcript speaker_role outcome segment_key analysis st = (res, st')"
  shows "strings (db st') = strings (db st) \<and>
         filter optimizer_event (out st') = filter optimizer_event (out st)"
proof -
  have c: "scenario_c w transcript outcome segment_key st
             = (Inr (JObj [(''status'', JStr ''no_action_needed'')]), st)"
    using nl by (rule scenario_c_not_lost)
  show ?thesis
  proof (cases "speaker_role = ''HUMAN_MANAGER'' \<and> outcome = JStr ''CLOSED_DEAL''")
    case True
    show ?thesis
    proof (cases "subscript analysis ''quality_score''")
      case (Inl e)
      then show ?thesis using run True by (simp add: router_def)
    next
      case qv: (Inr qv)
      show ?thesis
      proof (cases "py_gt qv 0.8")
        case (Inl e)
        then show ?thesis using run True qv by (simp add: router_def)
      next
        case (Inr high)
        show ?thesis
        proof (cases high)
          case True
          then have "scenario_a w segment_key analysis st = (res, st')"
            using run \<open>speaker_role = ''HUMAN_MANAGER'' \<and> outcome = JStr ''CLOSED_DEAL''\<close> qv Inr
            by (simp add: router_def)
          then show ?thesis by (rule scenario_a_quiet)
        next
          case False
          then show ?thesis
            using run \<open>speaker_role = ''HUMAN_MANAGER'' \<and> outcome = JStr ''CLOSED_DEAL''\<close> qv Inr c
            by (simp add: router_def)
        qed
      qed
    qed
  next
    case False
    show ?thesis
    proof (cases "speaker_role = ''AI_AGENT''")
      case True
      then have "scenario_b w transcript outcome segment_key analysis st = (res, st')"
        using run False by (simp add: router_def)
      then show ?thesis using scenario_b_not_lost [OF nl] by blast
    next
      case nai: False
      then show ?thesis using run False c by (auto simp: router_def)
    qed
  qed
qed

lemma router_human_result:
  assumes nl: "outcome \<noteq> JStr ''LOST_DEAL''"
    and nai: "speaker_role \<noteq> ''AI_AGENT''"
    and run: "router w transcript speaker_role outcome segment_key analysis st = (Inr r, st')"
  shows "r = JObj [(''status'', JStr ''no_action_needed'')] \<or>
         (speaker_role = ''HUMAN_MANAGER'' \<and> outcome = JStr ''CLOSED_DEAL'' \<and>
          (\<exists>qv q. subscript analysis ''quality_score'' = Inr qv \<and> as_number qv = Some q \<and> q > 0.8) \<and>
          r = JObj [(''status'', JStr ''learned_new_skill''), (''data'', analysis),
                    (''segment'', JStr segment_key)])"
proof (cases "speaker_role = ''HUMAN_MANAGER'' \<and> outcome = JStr ''CLOSED_DEAL''")
  case True
  then obtain qv where qv: "subscript analysis ''quality_score'' = Inr qv"
    using run by (cases "subscript analysis ''quality_score''") (simp_all add: router_def)
  obtain q where q: "as_number qv = Some q"
    using run True qv by (cases "as_number qv") (simp_all add: router_def py_gt_def)
  show ?thesis
  proof (cases "q > 0.8")
    case hi: True
    then have "scenario_a w segment_key analysis st = (Inr r, st')"
      using run True qv q by (simp add: router_def py_gt_def)
    then show ?thesis using scenario_a_result True qv q hi by blast
  next
    case False
    then show ?thesis using run True qv q nl
      by (simp add: router_def py_gt_def scenario_c_def)
  qed
next
  case False
  then show ?thesis using run nai nl by (auto simp: router_def scenario_c_def)
qed

text \<open>
  Claim C10. For every call whose outcome argument is a string other than \<^verbatim>\<open>LOST_DEAL\<close>,
  \<open>process_call_outcome\<close> prints no message of the optimization path and leaves the stored
  prompts unchanged. With speaker role \<^verbatim>\<open>AI_AGENT\<close> and an analysis that has an objection
  and a rebuttal it returns exactly the two entries \<^verbatim>\<open>status = graded_agent\<close> and \<^verbatim>\<open>score\<close>
  (no \<^verbatim>\<open>optimized\<close> entry); with any other speaker role it returns
  \<^verbatim>\<open>{"status": "no_action_needed"}\<close> unless it is the learn case (\<^verbatim>\<open>HUMAN_MANAGER\<close>,
  \<^verbatim>\<open>CLOSED_DEAL\<close>, quality score above 0.8).
\<close>

theorem no_optimization_unless_lost_deal:
  assumes "oc \<noteq> ''LOST_DEAL''"
    and "process_call_outcome w transcript speaker_role (Some oc) country industry st = (res, st')"
  shows "filter optimizer_event (out st') = filter optimizer_event (out st) \<and>
         strings (db st') = strings (db st) \<and>
         (speaker_role = ''AI_AGENT'' \<longrightarrow>
            (\<forall>r. res = Inr r \<longrightarrow>
               (\<exists>g. r = JObj [(''status'', JStr ''graded_agent''), (''score'', JNum g)])) \<and>
            (\<forall>analysis ob h rb.
               extraction w transcript = Inr (Document analysis) \<and>
               subscript analysis ''objection'' = Inr ob \<and> hash_of w ob = Inr h \<and>
               subscript analysis ''rebuttal'' = Inr rb \<longrightarrow>
               res = Inr (JObj [(''status'', JStr ''graded_agent''),
                                (''score'', JNum (grading_score_of rb (r_hget_rebuttal (db st) h)))]))) \<and>
         (speaker_role \<noteq> ''AI_AGENT'' \<longrightarrow>
            (\<forall>r. res = Inr r \<longrightarrow>
               r = JObj [(''status'', JStr ''no_action_needed'')] \<or>
               (speaker_role = ''HUMAN_MANAGER'' \<and> oc = ''CLOSED_DEAL'' \<and>
                status_of res = Some (JStr ''learned_new_skill''))) \<and>
            (\<forall>analysis. extraction w transcript = Inr (Document analysis) \<and>
               \<not> (speaker_role = ''HUMAN_MANAGER'' \<and> oc = ''CLOSED_DEAL'') \<longrightarrow>
               res = Inr (JObj [(''status'', JStr ''no_action_needed'')]) \<and> st' = st))"
proof (cases "extraction w transcript")
  case (Inl e)
  then have "res = Inl e" "st' = st"
    using assms(2) by (simp_all add: process_call_outcome_def)
  then show ?thesis using Inl by simp
next
  case (Inr response)
  show ?thesis
  proof (cases "json_loads response")
    case (Inl e)
    then have "res = Inl e" "st' = st"
      using assms(2) Inr by (simp_all add: process_call_outcome_def)
    moreover have "response \<noteq> Document a" for a
      using Inl by (auto simp: json_loads_def)
    ultimately show ?thesis using Inr by simp
  next
    case an: (Inr analysis)
    then have doc: "response = Document analysis"
      by (cases response) (simp_all add: json_loads_def)
    have nl: "JStr oc \<noteq> JStr ''LOST_DEAL''" using assms(1) by simp
    have run: "router w transcript speaker_role (JStr oc) (segment_key_of country industry) analysis st
                 = (res, st')"
      using assms(2) Inr doc by (simp add: process_call_outcome_given)
    have quiet: "filter optimizer_event (out st') = filter optimizer_event (out st) \<and>
                 strings (db st') = strings (db st)"
      using router_not_lost [OF nl run] by simp
    have ai: "speaker_role = ''AI_AGENT'' \<Longrightarrow>
                scenario_b w transcript (JStr oc) (segment_key_of country industry) analysis st = (res, st')"
      using run by (simp add: router_def)
    have ai1: "speaker_role = ''AI_AGENT'' \<Longrightarrow> res = Inr r \<Longrightarrow>
                 \<exists>g. r = JObj [(''status'', JStr ''graded_agent''), (''score'', JNum g)]" for r
      using scenario_b_not_lost [OF nl ai] by blast
    have ai2: "speaker_role = ''AI_AGENT'' \<Longrightarrow>
               subscript a ''objection'' = Inr ob \<Longrightarrow> hash_of w ob = Inr h \<Longrightarrow>
               subscript a ''rebuttal'' = Inr rb \<Longrightarrow> extraction w transcript = Inr (Document a) \<Longrightarrow>
               res = Inr (JObj [(''status'', JStr ''graded_agent''),
                                (''score'', JNum (grading_score_of rb (r_hget_rebuttal (db st) h)))])"
      for a ob h rb
      using ai scenario_b_grades [OF nl, of a ob w h rb transcript "segment_key_of country industry" st]
        Inr doc by simp
    have hm1: "r = JObj [(''status'', JStr ''no_action_needed'')] \<or>
               (speaker_role = ''HUMAN_MANAGER'' \<and> oc = ''CLOSED_DEAL'' \<and>
                status_of res = Some (JStr ''learned_new_skill''))"
      if nai: "speaker_role \<noteq> ''AI_AGENT''" and r: "res = Inr r" for r
    proof -
      have "router w transcript speaker_role (JStr oc) (segment_key_of country industry) analysis st
              = (Inr r, st')"
        using run r by simp
      from router_human_result [OF nl nai this] show ?thesis
        using r by (auto simp: status_of_def)
    qed
    have hm2: "res = Inr (JObj [(''status'', JStr ''no_action_needed'')]) \<and> st' = st"
      if nai: "speaker_role \<noteq> ''AI_AGENT''"
        and nh: "\<not> (speaker_role = ''HUMAN_MANAGER'' \<and> oc = ''CLOSED_DEAL'')"
    proof -
      have "router w transcript speaker_role (JStr oc) (segment_key_of country industry) analysis st
              = scenario_c w transcript (JStr oc) (segment_key_of country industry) st"
        using nai nh by (cases "speaker_role = ''HUMAN_MANAGER''") (simp_all add: router_def)
      then show ?thesis using run scenario_c_not_lost [OF nl] by simp
    qed
    show ?thesis using quiet ai1 ai2 hm1 hm2 by blast
  qed
qed

theorem no_optimization_unless_lost_deal_witness:
  "fst (process_call_outcome (sample_world Malformed (Document (sample_analysis 0.9)) 0.9)
          ''Customer: Tell me more about those savings.'' ''AI_AGENT'' (Some ''IN_PROGRESS'')
          ''US'' ''general'' (state_of []))
     = Inr (JObj [(''status'', JStr ''graded_agent''), (''score'', JNum 0.5)]) \<and>
   filter optimizer_event
     (out (snd (process_call_outcome (sample_world Malformed (Document (sample_analysis 0.9)) 0.9)
          ''Customer: Tell me more about those savings.'' ''AI_AGENT'' (Some ''IN_PROGRESS'')
          ''US'' ''general'' (state_of [])))) = [] \<and>
   process_call_outcome (sample_world Malformed (Document (sample_analysis 0.9)) 0.9)
          ''Customer: Tell me more about those savings.'' ''HUMAN_MANAGER'' (Some ''IN_PROGRESS'')
          ''US'' ''general'' (state_of [])
     = (Inr (JObj [(''status'', JStr ''no_action_needed'')]), state_of [])"
proof -
  let ?w = "sample_world Malformed (Document (sample_analysis 0.9)) 0.9"
  let ?t = "''Customer: Tell me more about those savings.''"
  have oc: "''IN_PROGRESS'' \<noteq> ''LOST_DEAL''" by simp
  have ex: "extraction ?w ?t = Inr (Document (sample_analysis 0.9))"
    by (simp add: sample_world_def)
  have ob: "subscript (sample_analysis 0.9) ''objection'' = Inr (JStr ''It is too expensive.'')"
    by (simp add: subscript_def sample_analysis_def)
  have h: "hash_of ?w (JStr ''It is too expensive.'') = Inr 20"
    by (simp add: hash_of_def sample_world_def sample_hash_def)
  have rb: "subscript (sample_analysis 0.9) ''rebuttal'' = Inr (JStr ''Compare the total cost of ownership.'')"
    by (simp add: subscript_def sample_analysis_def)
  have g: "grading_score_of (JStr ''Compare the total cost of ownership.'')
             (r_hget_rebuttal (db (state_of [])) 20) = 0.5"
    by (simp add: grading_score_of_def)
  have e: "out (state_of []) = []"
    by (simp add: state_of_def)
  note ai = no_optimization_unless_lost_deal [OF oc surjective_pairing, of ?w ?t "''AI_AGENT''"
      "''US''" "''general''" "state_of []"]
  note hm = no_optimization_unless_lost_deal [OF oc surjective_pairing, of ?w ?t "''HUMAN_MANAGER''"
      "''US''" "''general''" "state_of []"]
  have role: "''HUMAN_MANAGER'' \<noteq> ''AI_AGENT''" by simp
  have nh: "\<not> (''HUMAN_MANAGER'' = ''HUMAN_MANAGER'' \<and> ''IN_PROGRESS'' = ''CLOSED_DEAL'')" by simp
  have 1: "fst (process_call_outcome ?w ?t ''AI_AGENT'' (Some ''IN_PROGRESS'') ''US'' ''general'' (state_of []))
             = Inr (JObj [(''status'', JStr ''graded_agent''), (''score'', JNum 0.5)])"
    using ai [THEN conjunct2, THEN conjunct2, THEN conjunct1, THEN mp, OF refl, THEN conjunct2,
        rule_format, OF conjI [OF ex conjI [OF ob conjI [OF h rb]]]]
    by (simp only: g)
  have 2: "filter optimizer_event
             (out (snd (process_call_outcome ?w ?t ''AI_AGENT'' (Some ''IN_PROGRESS'') ''US'' ''general''
                          (state_of [])))) = []"
    using ai [THEN conjunct1] by (simp only: e filter.simps)
  have 3: "process_call_outcome ?w ?t ''HUMAN_MANAGER'' (Some ''IN_PROGRESS'') ''US'' ''general'' (state_of [])
             = (Inr (JObj [(''status'', JStr ''no_action_needed'')]), state_of [])"
    using hm [THEN conjunct2, THEN conjunct2, THEN conjunct2, THEN mp, OF role, THEN conjunct2,
        rule_format, OF conjI [OF ex nh]]
    by (simp only: prod_eq_iff fst_conv snd_conv)
  show ?thesis using 1 2 3 by (intro conjI)
qed

lemma scenario_b_status:
  assumes "scenario_b w transcript outcome segment_key analysis st = (Inr r, st')"
  shows "status_of (Inr r) = Some (JStr ''graded_agent'')"
  using assms unfolding scenario_b_def Let_def
  by (auto simp: status_of_def split: sum.splits prod.splits if_splits)

lemma scenario_c_lost:
  assumes "scenario_c w transcript (JStr ''LOST_DEAL'') segment_key st = (Inr r, st')"
  shows "r = JObj [(''status'', JStr ''prompt_optimized''), (''segment'', JStr segment_key)] \<and>
         (\<exists>candidate. optimize_and_verify w segment_key transcript (JStr ''LOST_DEAL'')
                         (print (LostDealOptimizing segment_key) st) = (Inr candidate, st'))"
  using assms unfolding scenario_c_def Let_def
  by (auto split: sum.splits prod.splits)

lemma router_status:
  assumes run: "router w transcript speaker_role outcome segment_key analysis st = (Inr r, st')"
  shows "status_of (Inr r) = Some (JStr ''prompt_optimized'') \<longleftrightarrow>
           speaker_role \<noteq> ''AI_AGENT'' \<and> outcome = JStr ''LOST_DEAL''"
proof (cases "outcome = JStr ''LOST_DEAL''")
  case lost: True
  show ?thesis
  proof (cases "speaker_role = ''AI_AGENT''")
    case True
    then have "scenario_b w transcript outcome segment_key analysis st = (Inr r, st')"
      using run by (simp add: router_def)
    then show ?thesis using scenario_b_status True by fastforce
  next
    case False
    then have "scenario_c w transcript (JStr ''LOST_DEAL'') segment_key st = (Inr r, st')"
      using run lost by (simp add: router_def)
    then show ?thesis using scenario_c_lost False lost by (fastforce simp: status_of_def)
  qed
next
  case nl: False
  show ?thesis
  proof (cases "speaker_role = ''AI_AGENT''")
    case True
    then have "scenario_b w transcript outcome segment_key analysis st = (Inr r, st')"
      using run by (cases "outcome = JStr ''CLOSED_DEAL''") (simp_all add: router_def)
    then show ?thesis using scenario_b_status True by fastforce
  next
    case False
    from router_human_result [OF nl False run] show ?thesis
      using nl by (auto simp: status_of_def)
  qed
qed

lemma process_call_outcome_returns:
  assumes "process_call_outcome w transcript speaker_role (Some oc) country industry st = (Inr r, st')"
  shows "\<exists>analysis. extraction w transcript = Inr (Document analysis) \<and>
           router w transcript speaker_role (JStr oc) (segment_key_of country industry) analysis st
             = (Inr r, st')"
  using assms unfolding process_call_outcome_def Let_def json_loads_def
  by (auto split: sum.splits json_response.splits)

text \<open>
  Claim C3 (amended). \<open>process_call_outcome\<close> reports \<^verbatim>\<open>prompt_optimized\<close> exactly when the
  outcome is \<^verbatim>\<open>LOST_DEAL\<close> and the speaker role is not \<^verbatim>\<open>AI_AGENT\<close> (for instance a
  \<^verbatim>\<open>HUMAN_MANAGER\<close> loss, whatever the quality score); it then ran the optimizer only: no
  skill was written and nothing but messages of the optimization path was printed. A
  \<^verbatim>\<open>HUMAN_MANAGER\<close> call with outcome \<^verbatim>\<open>CLOSED_DEAL\<close> never reports \<^verbatim>\<open>prompt_optimized\<close>.
  Such a call with outcome \<^verbatim>\<open>LOST_DEAL\<close> returns whenever the extraction parses and the
  optimizer returns.
\<close>

theorem prompt_optimized_iff_lost_deal:
  "(\<forall>r st'. process_call_outcome w transcript speaker_role (Some oc) country industry st = (Inr r, st')
      \<longrightarrow> (status_of (Inr r) = Some (JStr ''prompt_optimized'') \<longleftrightarrow>
             speaker_role \<noteq> ''AI_AGENT'' \<and> oc = ''LOST_DEAL'') \<and>
           (speaker_role \<noteq> ''AI_AGENT'' \<and> oc = ''LOST_DEAL'' \<longrightarrow>
              r = JObj [(''status'', JStr ''prompt_optimized''),
                        (''segment'', JStr (segment_key_of country industry))] \<and>
              skills (db st') = skills (db st) \<and>
              filter (\<lambda>e. \<not> optimizer_event e) (out st') = filter (\<lambda>e. \<not> optimizer_event e) (out st))) \<and>
   (\<forall>analysis candidate st2.
      speaker_role \<noteq> ''AI_AGENT'' \<and> oc = ''LOST_DEAL'' \<and>
      extraction w transcript = Inr (Document analysis) \<and>
      optimize_and_verify w (segment_key_of country industry) transcript (JStr ''LOST_DEAL'')
        (print (LostDealOptimizing (segment_key_of country industry)) st) = (Inr candidate, st2)
      \<longrightarrow> process_call_outcome w transcript speaker_role (Some oc) country industry st
            = (Inr (JObj [(''status'', JStr ''prompt_optimized''),
                          (''segment'', JStr (segment_key_of country industry))]), st2))"
proof (intro conjI allI impI)
  fix r st'
  assume run: "process_call_outcome w transcript speaker_role (Some oc) country industry st = (Inr r, st')"
  then obtain analysis where
    rt: "router w transcript speaker_role (JStr oc) (segment_key_of country industry) analysis st
           = (Inr r, st')"
    using process_call_outcome_returns by blast
  show "status_of (Inr r) = Some (JStr ''prompt_optimized'') \<longleftrightarrow>
          speaker_role \<noteq> ''AI_AGENT'' \<and> oc = ''LOST_DEAL''"
    using router_status [OF rt] by simp
  assume lost: "speaker_role \<noteq> ''AI_AGENT'' \<and> oc = ''LOST_DEAL''"
  then have "scenario_c w transcript (JStr ''LOST_DEAL'') (segment_key_of country industry) st = (Inr r, st')"
    using rt by (simp add: router_def)
  from scenario_c_lost [OF this] obtain candidate where
    r: "r = JObj [(''status'', JStr ''prompt_optimized''),
                  (''segment'', JStr (segment_key_of country industry))]"
    and opt: "optimize_and_verify w (segment_key_of country industry) transcript (JStr ''LOST_DEAL'')
                (print (LostDealOptimizing (segment_key_of country industry)) st) = (Inr candidate, st')"
    by blast
  show "r = JObj [(''status'', JStr ''prompt_optimized''),
                  (''segment'', JStr (segment_key_of country industry))]"
    by (rule r)
  show "skills (db st') = skills (db st)"
    using optimize_and_verify_skills [OF opt] by (simp add: print_def)
  show "filter (\<lambda>e. \<not> optimizer_event e) (out st') = filter (\<lambda>e. \<not> optimizer_event e) (out st)"
    using optimize_and_verify_other_output [OF opt] by (simp add: print_def)
next
  fix analysis candidate st2
  assume a: "speaker_role \<noteq> ''AI_AGENT'' \<and> oc = ''LOST_DEAL'' \<and>
      extraction w transcript = Inr (Document analysis) \<and>
      optimize_and_verify w (segment_key_of country industry) transcript (JStr ''LOST_DEAL'')
        (print (LostDealOptimizing (segment_key_of country industry)) st) = (Inr candidate, st2)"
  then have "router w transcript speaker_role (JStr oc) (segment_key_of country industry) analysis st
               = scenario_c w transcript (JStr ''LOST_DEAL'') (segment_key_of country industry) st"
    by (simp add: router_def)
  then show "process_call_outcome w transcript speaker_role (Some oc) country industry st
            = (Inr (JObj [(''status'', JStr ''prompt_optimized''),
                          (''segment'', JStr (segment_key_of country industry))]), st2)"
    using a by (simp add: process_call_outcome_given scenario_c_def)
qed

theorem prompt_optimized_iff_lost_deal_witness:
  "fst (process_call_outcome (sample_world Malformed (Document (sample_analysis 0.5)) 0.9)
          ''Manager: let me know.'' ''HUMAN_MANAGER'' (Some ''LOST_DEAL'') ''US'' ''general'' (state_of []))
     = Inr (JObj [(''status'', JStr ''prompt_optimized''), (''segment'', JStr ''US:general'')]) \<and>
   skills (db (snd (process_call_outcome (sample_world Malformed (Document (sample_analysis 0.5)) 0.9)
          ''Manager: let me know.'' ''HUMAN_MANAGER'' (Some ''LOST_DEAL'') ''US'' ''general'' (state_of []))))
     = Map.empty"
proof -
  let ?w = "sample_world Malformed (Document (sample_analysis 0.5)) 0.9"
  let ?t = "''Manager: let me know.''"
  let ?seg = "segment_key_of ''US'' ''general''"
  let ?opt = "optimize_and_verify ?w ?seg ?t (JStr ''LOST_DEAL'') (print (LostDealOptimizing ?seg) (state_of []))"
  let ?run = "process_call_outcome ?w ?t ''HUMAN_MANAGER'' (Some ''LOST_DEAL'') ''US'' ''general'' (state_of [])"
  have role: "''HUMAN_MANAGER'' \<noteq> ''AI_AGENT''" by simp
  have ex: "extraction ?w ?t = Inr (Document (sample_analysis 0.5))"
    by (simp add: sample_world_def)
  have cand: "strip ''You are a helpful sales agent. Quote the ROI. ''
                = ''You are a helpful sales agent. Quote the ROI.''"
    by (simp add: strip_def is_space_def)
  have mu: "mutation_answer ?w ?seg ?t (JStr ''LOST_DEAL'') (db (print (LostDealOptimizing ?seg) (state_of [])))
              = Inr (Some ''You are a helpful sales agent. Quote the ROI. '')"
    by (simp add: mutation_answer_def sample_world_def state_of_def store_of_def py_or_def
        print_def segment_key_of_def)
  have ev: "evaluate ?w (strip ''You are a helpful sales agent. Quote the ROI. '')
              (evaluated_cases (db (print (LostDealOptimizing ?seg) (state_of []))))
              = Inr (summary_with_mean 0.9)"
    by (simp add: evaluate_sample evaluated_cases_def state_of_def store_of_def print_def)
  have n: "as_number (JNum 0.9) = Some 0.9" by (simp add: as_number_def)
  have "fst ?opt = Inr ''You are a helpful sales agent. Quote the ROI.''"
    unfolding optimize_and_verify_gate_reached [OF mu ev avg_score_of_summary n]
    by (simp add: Let_def cand)
  then have opt: "?opt = (Inr ''You are a helpful sales agent. Quote the ROI.'', snd ?opt)"
    by (simp add: prod_eq_iff)
  have run: "?run = (Inr (JObj [(''status'', JStr ''prompt_optimized''), (''segment'', JStr ?seg)]), snd ?opt)"
    by (rule prompt_optimized_iff_lost_deal [THEN conjunct2, rule_format,
          OF conjI [OF role conjI [OF refl conjI [OF ex opt]]]])
  have "skills (db (snd ?opt)) = skills (db (state_of []))"
    using prompt_optimized_iff_lost_deal [THEN conjunct1, rule_format, OF run, THEN conjunct2,
        THEN mp, OF conjI [OF role refl], THEN conjunct2, THEN conjunct1] .
  then show ?thesis
    using run by (simp add: segment_key_of_def state_of_def store_of_def)
qed

section \<open>Grading\<close>

lemma grading_score_of_one_iff:
  "grading_score_of reb known_best = 1 \<longleftrightarrow> reb = JNull \<and> known_best = None"
  by (cases "(reb, known_best)" rule: py_eq_hget.cases) (simp_all add: grading_score_of_def)

lemma grading_score_of_str:
  "grading_score_of (JStr t) known_best = 0.5"
  by (simp add: grading_score_of_def)

lemma state_after_lesson_eq:
  "state_after_lesson =
     \<lparr>db = \<lparr>strings = Map.empty,
            skills = [20 \<mapsto> \<lparr>sk_trigger = Bytes ''It is too expensive.'',
                             sk_rebuttal = Bytes ''Compare the total cost of ownership.'',
                             sk_vector = [1, 0]\<rparr>],
            test_cases = [\<lparr>tc_input = JStr ''It is too expensive.'',
                           tc_target = JStr ''Compare the total cost of ownership.''\<rparr>]\<rparr>,
      out = [GoldFound (JStr ''It is too expensive.''), AddedTestCase]\<rparr>"
  unfolding state_after_lesson_def process_call_outcome_def router_def scenario_a_def
    store_lesson_in_redis_def add_test_case_from_lesson_def Let_def
  by (simp add: sample_world_def sample_analysis_def json_loads_def subscript_def py_gt_def
      as_number_def get_embedding_def hash_of_def sample_hash_def encode_method_def encode_def utf8_def
      on_db_def r_hset_def r_rpush_def print_def slice_50_def state_of_def store_of_def
      segment_key_of_def)

text \<open>
  Claim C5. After the lesson of \<open>sample_analysis\<close> has been learned, the Skill Store holds
  under the fingerprint of the objection the very rebuttal text of the analysis, and an
  \<^verbatim>\<open>AI_AGENT\<close> call with the same extracted objection and rebuttal is graded 0.5, not 1.0:
  the extracted rebuttal is a \<^verbatim>\<open>str\<close> and the stored one comes back as \<^verbatim>\<open>bytes\<close>.
\<close>

theorem grading_of_matching_rebuttal:
  "r_hget_rebuttal (db state_after_lesson) (sample_hash (JStr ''It is too expensive.''))
     = Some (encode ''Compare the total cost of ownership.'') \<and>
   subscript (sample_analysis 0.9) ''rebuttal'' = Inr (JStr ''Compare the total cost of ownership.'') \<and>
   fst (process_call_outcome (sample_world Malformed (Document (sample_analysis 0.9)) 0.9)
          ''Agent: compare the total cost.'' ''AI_AGENT'' (Some ''CLOSED_DEAL'') ''US'' ''general''
          state_after_lesson)
     = Inr (JObj [(''status'', JStr ''graded_agent''), (''score'', JNum 0.5)])"
  unfolding state_after_lesson_eq process_call_outcome_def router_def scenario_b_def Let_def
  by (simp add: sample_world_def sample_analysis_def json_loads_def subscript_def
      hash_of_def sample_hash_def encode_def utf8_def r_hget_rebuttal_def grading_score_of_def)

section \<open>Properties of Vector Retrieval\<close>

lemma collect_map_filter:
  "collect svc rt q qn keys results = results @ List.map_filter (process_key svc rt q qn) keys"
  by (induction keys arbitrary: results) (simp_all add: List.map_filter_simps split: option.splits)

lemma process_key_Some:
  assumes "process_key svc rt q qn key = Some r"
  shows "res_key r = key \<and>
         (\<exists>data bs v. hgetall svc key = Inr data \<and> map_of data ''vector'' = Some bs \<and>
            unpack svc bs = Inr v \<and> \<not> fl_is_zero (np_norm rt v) \<and> length v = length q \<and>
            res_score r = np_divide rt (np_dot_value rt q v) (np_multiply rt qn (np_norm rt v)))"
  using assms unfolding process_key_def Let_def np_dot_def
  by (auto split: sum.splits option.splits if_splits)

lemma collect_entries:
  assumes "r \<in> set (collect svc rt q qn keys [])"
  shows "\<exists>data bs v. hgetall svc (res_key r) = Inr data \<and> map_of data ''vector'' = Some bs \<and>
            unpack svc bs = Inr v \<and> \<not> fl_is_zero (np_norm rt v) \<and> length v = length q \<and>
            res_score r = np_divide rt (np_dot_value rt q v) (np_multiply rt qn (np_norm rt v))"
proof -
  from assms obtain key where "process_key svc rt q qn key = Some r"
    by (auto simp: collect_map_filter List.map_filter_def)
  from process_key_Some [OF this] show ?thesis by auto
qed

lemma fl_lt_asym: "fl_lt a b \<Longrightarrow> \<not> fl_lt b a"
  by (cases a; cases b) simp_all

lemma fl_ge_trans:
  "a \<noteq> NaN \<Longrightarrow> b \<noteq> NaN \<Longrightarrow> c \<noteq> NaN \<Longrightarrow> \<not> fl_lt a b \<Longrightarrow> \<not> fl_lt b c \<Longrightarrow> \<not> fl_lt a c"
  by (cases a; cases b; cases c) simp_all

lemma set_insert_desc: "set (insert_desc x ys) = insert x (set ys)"
  by (induction ys) auto

lemma set_stable_desc: "set (stable_desc results) = set results"
  unfolding stable_desc_def by (induction results) (simp_all add: set_insert_desc)

lemma length_insert_desc: "length (insert_desc x ys) = Suc (length ys)"
  by (induction ys) simp_all

lemma sorted_insert_desc:
  assumes "sorted_wrt (\<lambda>a b. \<not> fl_lt (res_score a) (res_score b)) ys"
    and "res_score x \<noteq> NaN" and "\<forall>y \<in> set ys. res_score y \<noteq> NaN"
  shows "sorted_wrt (\<lambda>a b. \<not> fl_lt (res_score a) (res_score b)) (insert_desc x ys)"
  using assms
proof (induction ys)
  case Nil
  then show ?case by simp
next
  case (Cons y ys)
  show ?case
  proof (cases "fl_lt (res_score x) (res_score y)")
    case True
    then have "\<not> fl_lt (res_score y) (res_score x)" by (rule fl_lt_asym)
    then show ?thesis using True Cons by (auto simp: set_insert_desc)
  next
    case False
    have "\<not> fl_lt (res_score x) (res_score z)" if "z \<in> set ys" for z
      using fl_ge_trans [of "res_score x" "res_score y" "res_score z"] False Cons.prems that
      by auto
    then show ?thesis using False Cons.prems by auto
  qed
qed

lemma sorted_stable_desc:
  assumes "\<forall>r \<in> set results. res_score r \<noteq> NaN"
  shows "sorted_wrt (\<lambda>a b. \<not> fl_lt (res_score a) (res_score b)) (stable_desc results)"
  using assms
proof (induction results)
  case Nil
  then show ?case by (simp add: stable_desc_def)
next
  case (Cons x xs)
  then have "sorted_wrt (\<lambda>a b. \<not> fl_lt (res_score a) (res_score b)) (stable_desc xs)"
    by simp
  then have "sorted_wrt (\<lambda>a b. \<not> fl_lt (res_score a) (res_score b))
               (insert_desc x (stable_desc xs))"
    using Cons.prems by (intro sorted_insert_desc) (auto simp: set_stable_desc)
  then show ?case by (simp add: stable_desc_def)
qed

lemma slice_to_take: "\<exists>n. slice_to xs k = take n xs"
  by (auto simp: slice_to_def)

lemma sorted_slice_to:
  "sorted_wrt P xs \<Longrightarrow> sorted_wrt P (slice_to xs k)"
  using slice_to_take [of xs k] by (auto simp: sorted_wrt_take)

lemma set_slice_to: "set (slice_to xs k) \<subseteq> set xs"
  using slice_to_take [of xs k] by (auto dest: in_set_takeD)

lemma length_slice_to: "0 \<le> k \<Longrightarrow> int (length (slice_to xs k)) \<le> k"
  by (simp add: slice_to_def)

lemma vector_search_cases:
  "vector_search svc rt q k = [] \<or>
   (\<exists>all_keys. scan_keys svc = Inr all_keys \<and> connected svc \<and> \<not> fl_is_zero (np_norm rt q) \<and>
      vector_search svc rt q k
        = slice_to (sort_by_score_desc rt (collect svc rt q (np_norm rt q) all_keys [])) k)"
  unfolding vector_search_def Let_def by (auto split: sum.splits)

text \<open>
  What holds of \<open>vector_search\<close> for every store, every numpy result and every query:
  a count \<open>k \<ge> 0\<close> bounds the length of the result; the result is empty when there is
  no client, when the scan raises, when there is no skill key and when the norm of the
  query is computed as zero; and when no computed score is NaN, no entry of the result
  has a smaller score than a later one, and every entry belongs to a key whose stored
  vector has the length of the query and a norm not computed as zero, its score being the
  quotient numpy computes of the dot product by the product of the two norms.
\<close>

lemma vector_search_for_counts:
  "(0 \<le> k \<longrightarrow> int (length (vector_search svc rt q k)) \<le> k) \<and>
   (\<not> connected svc \<longrightarrow> vector_search svc rt q k = []) \<and>
   ((\<exists>e. scan_keys svc = Inl e) \<longrightarrow> vector_search svc rt q k = []) \<and>
   (scan_keys svc = Inr [] \<longrightarrow> vector_search svc rt q k = []) \<and>
   (fl_is_zero (np_norm rt q) \<longrightarrow> vector_search svc rt q k = []) \<and>
   ((\<forall>all_keys. scan_keys svc = Inr all_keys \<longrightarrow>
       (\<forall>r \<in> set (collect svc rt q (np_norm rt q) all_keys []). res_score r \<noteq> NaN)) \<longrightarrow>
      sorted_wrt (\<lambda>a b. \<not> fl_lt (res_score a) (res_score b)) (vector_search svc rt q k) \<and>
      (\<forall>r \<in> set (vector_search svc rt q k).
         \<exists>data bs v. hgetall svc (res_key r) = Inr data \<and> map_of data ''vector'' = Some bs \<and>
           unpack svc bs = Inr v \<and> \<not> fl_is_zero (np_norm rt v) \<and> length v = length q \<and>
           res_score r =
             np_divide rt (np_dot_value rt q v) (np_multiply rt (np_norm rt q) (np_norm rt v))))"
proof (intro conjI impI ballI)
  assume "0 \<le> k"
  then show "int (length (vector_search svc rt q k)) \<le> k"
    using vector_search_cases [of svc rt q k] by (auto intro: length_slice_to)
next
  assume "\<not> connected svc"
  then show "vector_search svc rt q k = []" by (simp add: vector_search_def)
next
  assume "\<exists>e. scan_keys svc = Inl e"
  then show "vector_search svc rt q k = []" by (auto simp: vector_search_def)
next
  assume "scan_keys svc = Inr []"
  then show "vector_search svc rt q k = []" by (simp add: vector_search_def)
next
  assume "fl_is_zero (np_norm rt q)"
  then show "vector_search svc rt q k = []"
    by (simp add: vector_search_def Let_def split: sum.splits)
next
  assume nn: "\<forall>all_keys. scan_keys svc = Inr all_keys \<longrightarrow>
       (\<forall>r \<in> set (collect svc rt q (np_norm rt q) all_keys []). res_score r \<noteq> NaN)"
  show "sorted_wrt (\<lambda>a b. \<not> fl_lt (res_score a) (res_score b)) (vector_search svc rt q k)"
  proof (cases "vector_search svc rt q k = []")
    case True
    then show ?thesis by simp
  next
    case False
    then obtain all_keys where ks: "scan_keys svc = Inr all_keys"
      and vs: "vector_search svc rt q k
                 = slice_to (sort_by_score_desc rt (collect svc rt q (np_norm rt q) all_keys [])) k"
      using vector_search_cases [of svc rt q k] by auto
    let ?c = "collect svc rt q (np_norm rt q) all_keys []"
    have free: "\<forall>r \<in> set ?c. res_score r \<noteq> NaN" using nn ks by blast
    then have "sort_by_score_desc rt ?c = stable_desc ?c"
      by (auto simp: sort_by_score_desc_def list_ex_iff)
    then show ?thesis
      unfolding vs using sorted_slice_to [OF sorted_stable_desc [OF free], of k] by simp
  qed
next
  fix r
  assume nn: "\<forall>all_keys. scan_keys svc = Inr all_keys \<longrightarrow>
       (\<forall>r \<in> set (collect svc rt q (np_norm rt q) all_keys []). res_score r \<noteq> NaN)"
    and r: "r \<in> set (vector_search svc rt q k)"
  then obtain all_keys where ks: "scan_keys svc = Inr all_keys"
    and vs: "vector_search svc rt q k
               = slice_to (sort_by_score_desc rt (collect svc rt q (np_norm rt q) all_keys [])) k"
    using vector_search_cases [of svc rt q k] by auto
  let ?c = "collect svc rt q (np_norm rt q) all_keys []"
  have free: "\<forall>r \<in> set ?c. res_score r \<noteq> NaN" using nn ks by blast
  then have "sort_by_score_desc rt ?c = stable_desc ?c"
    by (auto simp: sort_by_score_desc_def list_ex_iff)
  then have "r \<in> set ?c"
    using r vs set_slice_to [of "stable_desc ?c" k] by (auto simp: set_stable_desc)
  then show "\<exists>data bs v. hgetall svc (res_key r) = Inr data \<and> map_of data ''vector'' = Some bs \<and>
           unpack svc bs = Inr v \<and> \<not> fl_is_zero (np_norm rt v) \<and> length v = length q \<and>
           res_score r =
             np_divide rt (np_dot_value rt q v) (np_multiply rt (np_norm rt q) (np_norm rt v))"
    by (rule collect_entries)
qed


end
